theory Spec2Isabelle
  imports Complex_Main
begin

text \<open>
  A shallow embedding of the FoodiFind discovery service (\<^verbatim>\<open>fetchFoodSpots\<close> with its
  in-memory cache and the fallback generator \<^verbatim>\<open>mockSpots\<close>) and of the weekly refresh action
  of the \<^verbatim>\<open>App\<close> component (\<^verbatim>\<open>handleWeeklyRefresh\<close>, \<^verbatim>\<open>addLog\<close>), followed by the properties
  proved of them. Effects are explicit: every function takes the state of the process and
  returns it updated, and what comes from outside (credential, backend, clock, random
  numbers, the Unicode tables) is read from an environment. A throw is a value.
\<close>

section \<open>JavaScript values\<close>

text \<open>
  A string is the list of its UTF-16 code units, so \<^verbatim>\<open>length\<close>, \<^verbatim>\<open>includes\<close> and \<^verbatim>\<open>trim\<close> count and
  compare what the language counts and compares; \<open>str\<close> embeds an ASCII literal.
\<close>

type_synonym jsstring = "nat list"

definition str :: "string \<Rightarrow> jsstring" where
  "str s = map of_char s"

text \<open>
  The service copies fields of an untyped payload (\<^verbatim>\<open>item: any\<close>) into its result, so the
  run-time values are modelled as they are: a tagged value that is undefined, null, a boolean,
  a number, NaN, a string, an array or an object (its own properties, each name once).
  Numbers are real numbers: the rounding and the infinities of IEEE doubles are not modelled.
\<close>

datatype jsval =
    Undefined
  | Null
  | Bool bool
  | Num real
  | NaN
  | Str jsstring
  | Arr "jsval list"
  | Obj "(jsstring \<times> jsval) list"

datatype js_error = ApiError | SyntaxError | TypeError

datatype 'a attempt = Threw js_error | Returned 'a

text \<open>Truthiness, as tested by \<^verbatim>\<open>||\<close>, \<^verbatim>\<open>!\<close> and \<^verbatim>\<open>if\<close>.\<close>

fun truthy :: "jsval \<Rightarrow> bool" where
  "truthy Undefined = False"
| "truthy Null = False"
| "truthy (Bool b) = b"
| "truthy (Num x) = (x \<noteq> 0)"
| "truthy NaN = False"
| "truthy (Str s) = (s \<noteq> [])"
| "truthy (Arr xs) = True"
| "truthy (Obj kvs) = True"

text \<open>\<^verbatim>\<open>a || b\<close> on values (the right operand is passed already evaluated where it has no effect).\<close>

definition or_else :: "jsval \<Rightarrow> jsval \<Rightarrow> jsval" where
  "or_else a b = (if truthy a then a else b)"

text \<open>
  Reading a property \<^verbatim>\<open>v.k\<close> throws a TypeError when \<^verbatim>\<open>v\<close> is null or undefined. On every
  other value it yields the own property of an object and undefined otherwise: none of the
  property names the service reads is defined on a prototype of a parsed JSON value.
\<close>

fun nullish :: "jsval \<Rightarrow> bool" where
  "nullish Undefined = True"
| "nullish Null = True"
| "nullish v = False"

fun getp :: "jsval \<Rightarrow> jsstring \<Rightarrow> jsval" where
  "getp (Obj kvs) k = (case map_of kvs k of Some v \<Rightarrow> v | None \<Rightarrow> Undefined)"
| "getp v k = Undefined"

section \<open>Data model (types.ts)\<close>

text \<open>
  The interfaces of \<^verbatim>\<open>types.ts\<close>. A field that the service fills from the payload holds a
  run-time value; \<^verbatim>\<open>id\<close>, \<^verbatim>\<open>sourceCount\<close> and \<^verbatim>\<open>lastUpdated\<close> are always computed by the code.
  \<^verbatim>\<open>lastUpdated\<close> is the instant (milliseconds since the epoch) that \<^verbatim>\<open>toISOString\<close> renders.
  A viral post is an object with the properties handle, caption, likes, imageUrl and isReel.
\<close>

record Coordinates =
  lat :: jsval
  lng :: jsval

record InfluencerData =
  summary :: jsval
  sourceCount :: int
  topMentionedBy :: jsval

record FoodSpot =
  spot_id :: jsstring
  name :: jsval
  cuisine :: jsval
  address :: jsval
  priceRange :: jsval
  coordinates :: Coordinates
  sentimentScore :: jsval
  trendingScore :: jsval
  popularityVelocity :: jsval
  bestDishes :: jsval
  description :: jsval
  aiConfidence :: jsval
  influencerData :: InfluencerData
  viralPosts :: jsval
  lastUpdated :: nat

record DiscoveryResult =
  spots :: "FoodSpot list"
  center :: Coordinates
  locationName :: jsval

datatype AgentType = IDLE | DISCOVERY | SEARCH | RANKING | VALIDATION | REFRESH

record AgentLog =
  log_id :: jsstring
  timestamp :: nat
  message :: jsstring
  agent :: AgentType

section \<open>Environment and state\<close>

text \<open>
  What the code reads from outside: the credential, the generative backend (its answer to the
  k-th request: a rejection, or a response whose \<^verbatim>\<open>text\<close> may be undefined), \<^verbatim>\<open>JSON.parse\<close>
  (\<open>None\<close> is a SyntaxError), the successive values of \<^verbatim>\<open>Math.random\<close>, the time that passes
  after each reading of the clock, the printing and reading of numbers, and the lower-casing
  of a string that has a code unit outside ASCII (the Unicode case mapping).
\<close>

datatype gen_response = Rejected | Resolved "jsstring option"

record env =
  API_KEY :: "jsstring option"
  generateContent :: "nat \<Rightarrow> jsstring \<Rightarrow> gen_response"
  JSON_parse :: "jsstring \<Rightarrow> jsval option"
  random_values :: "nat \<Rightarrow> real"
  clock_ticks :: "nat \<Rightarrow> nat"
  Number_toString :: "real \<Rightarrow> jsstring"
  StringToNumber :: "jsstring \<Rightarrow> jsval"
  toString36 :: "real \<Rightarrow> jsstring"
  unicode_toLowerCase :: "jsstring \<Rightarrow> jsstring"

text \<open>
  The state: the own properties of the module-level \<^verbatim>\<open>requestCache\<close> object, the number of
  requests sent to the backend, the console, the number of random values and clock readings
  consumed, the current time, and the state variables of the \<^verbatim>\<open>App\<close> component that the
  refresh action uses.
\<close>

record world =
  requestCache :: "jsstring \<rightharpoonup> DiscoveryResult"
  upstream_calls :: nat
  console :: "jsstring list"
  random_reads :: nat
  clock_reads :: nat
  now :: nat
  held_spots :: "FoodSpot list"
  activeAgent :: AgentType
  agentLogs :: "AgentLog list"

definition initial_world :: world where
  "initial_world =
     \<lparr>requestCache = Map.empty, upstream_calls = 0, console = [], random_reads = 0,
      clock_reads = 0, now = 0, held_spots = [], activeAgent = IDLE, agentLogs = []\<rparr>"

definition Math_random :: "env \<Rightarrow> world \<Rightarrow> real \<times> world" where
  "Math_random e w = (random_values e (random_reads w), w\<lparr>random_reads := Suc (random_reads w)\<rparr>)"

text \<open>\<^verbatim>\<open>Date.now()\<close> and \<^verbatim>\<open>new Date()\<close>: the current time; the clock may advance after the reading.\<close>

definition Date_now :: "env \<Rightarrow> world \<Rightarrow> nat \<times> world" where
  "Date_now e w =
     (now w, w\<lparr>clock_reads := Suc (clock_reads w), now := now w + clock_ticks e (clock_reads w)\<rparr>)"

text \<open>A timer of \<open>d\<close> milliseconds: its callback runs when at least \<open>d\<close> milliseconds have passed.\<close>

definition elapse :: "nat \<Rightarrow> world \<Rightarrow> world" where
  "elapse d w = w\<lparr>now := now w + d\<rparr>"

definition console_log :: "jsstring \<Rightarrow> world \<Rightarrow> world" where
  "console_log line w = w\<lparr>console := console w @ [line]\<rparr>"

section \<open>String operations\<close>

text \<open>
  \<^verbatim>\<open>toLowerCase\<close>. On a string of ASCII code units the Unicode case mapping turns A-Z into a-z
  and leaves every other unit; on any other string it is the mapping of the environment
  (it sends, for instance, U+212A to k and U+0130 to i followed by U+0307).
\<close>

definition toLowerUnit :: "nat \<Rightarrow> nat" where
  "toLowerUnit c = (if 65 \<le> c \<and> c \<le> 90 then c + 32 else c)"

definition toLowerCase :: "env \<Rightarrow> jsstring \<Rightarrow> jsstring" where
  "toLowerCase e s =
     (if list_all (\<lambda>c. c < 128) s then map toLowerUnit s else unicode_toLowerCase e s)"

text \<open>
  \<^verbatim>\<open>trim\<close> strips white space and line terminators from both ends: TAB, LF, VT, FF, CR, the
  space, U+00A0, U+1680, U+2000 to U+200A, U+2028, U+2029, U+202F, U+205F, U+3000 and
  U+FEFF, each a single code unit.
\<close>

definition isWhiteSpace :: "nat \<Rightarrow> bool" where
  "isWhiteSpace c =
     (c \<in> set [0x09, 0x0A, 0x0B, 0x0C, 0x0D, 0x20, 0xA0, 0x1680, 0x2000, 0x2001, 0x2002,
               0x2003, 0x2004, 0x2005, 0x2006, 0x2007, 0x2008, 0x2009, 0x200A, 0x2028,
               0x2029, 0x202F, 0x205F, 0x3000, 0xFEFF])"

definition trim :: "jsstring \<Rightarrow> jsstring" where
  "trim s = rev (dropWhile isWhiteSpace (rev (dropWhile isWhiteSpace s)))"

fun startsWith :: "jsstring \<Rightarrow> jsstring \<Rightarrow> bool" where
  "startsWith s [] = True"
| "startsWith [] (p # ps) = False"
| "startsWith (c # cs) (p # ps) = (c = p \<and> startsWith cs ps)"

fun includes_str :: "jsstring \<Rightarrow> jsstring \<Rightarrow> bool" where
  "includes_str [] p = (p = [])"
| "includes_str (c # cs) p = (startsWith (c # cs) p \<or> includes_str cs p)"

text \<open>Decimal rendering of a non-negative integer, as a template literal renders it.\<close>

definition digit :: "nat \<Rightarrow> nat" where
  "digit d = 48 + d mod 10"

function show_nat :: "nat \<Rightarrow> jsstring" where
  "show_nat n = (if n < 10 then [digit n] else show_nat (n div 10) @ [digit (n mod 10)])"
  by pat_completeness auto
termination
  by (relation "measure id") auto

declare show_nat.simps [simp del]

section \<open>Coercions\<close>

text \<open>
  Converting an object to a primitive calls its \<^verbatim>\<open>valueOf\<close> and \<^verbatim>\<open>toString\<close>. An object parsed
  from JSON has no callable own property, and the inherited \<^verbatim>\<open>valueOf\<close> returns the object
  itself: the conversion yields what the inherited \<^verbatim>\<open>toString\<close> returns, or throws a TypeError
  when an own property named \<^verbatim>\<open>toString\<close> hides it. For an array \<^verbatim>\<open>toString\<close> is \<^verbatim>\<open>join\<close>, which
  converts every element that is neither null nor undefined.
\<close>

fun coercion_throws :: "jsval \<Rightarrow> bool" where
  "coercion_throws (Obj kvs) = (map_of kvs (str ''toString'') \<noteq> None)"
| "coercion_throws (Arr xs) = list_ex coercion_throws xs"
| "coercion_throws v = False"

fun join :: "jsstring \<Rightarrow> jsstring list \<Rightarrow> jsstring" where
  "join sep [] = []"
| "join sep [x] = x"
| "join sep (x # y # ys) = x @ sep @ join sep (y # ys)"

text \<open>The string of a value whose conversion does not throw; numbers are printed by the environment.\<close>

fun to_string :: "env \<Rightarrow> jsval \<Rightarrow> jsstring" where
  "to_string e Undefined = str ''undefined''"
| "to_string e Null = str ''null''"
| "to_string e (Bool b) = (if b then str ''true'' else str ''false'')"
| "to_string e (Num x) = Number_toString e x"
| "to_string e NaN = str ''NaN''"
| "to_string e (Str s) = s"
| "to_string e (Arr xs) = join (str '','') (map (\<lambda>v. if nullish v then [] else to_string e v) xs)"
| "to_string e (Obj kvs) = str ''[object Object]''"

text \<open>The number of a value whose conversion does not throw; strings are read by the environment.\<close>

fun to_number :: "env \<Rightarrow> jsval \<Rightarrow> jsval" where
  "to_number e Undefined = NaN"
| "to_number e Null = Num 0"
| "to_number e (Bool b) = Num (if b then 1 else 0)"
| "to_number e (Num x) = Num x"
| "to_number e NaN = NaN"
| "to_number e (Str s) = StringToNumber e s"
| "to_number e (Arr xs) = StringToNumber e (to_string e (Arr xs))"
| "to_number e (Obj kvs) = StringToNumber e (to_string e (Obj kvs))"

text \<open>\<^verbatim>\<open>`${v}`\<close>: the abstract operation ToString.\<close>

definition ToString :: "env \<Rightarrow> jsval \<Rightarrow> jsstring attempt" where
  "ToString e v = (if coercion_throws v then Threw TypeError else Returned (to_string e v))"

fun stringish :: "jsval \<Rightarrow> bool" where
  "stringish (Str s) = True"
| "stringish (Arr xs) = True"
| "stringish (Obj kvs) = True"
| "stringish v = False"

text \<open>
  \<^verbatim>\<open>a + b\<close>: both operands are converted to primitives; concatenation when one of them is
  then a string (a string, an array or an object), addition of numbers otherwise.
\<close>

definition js_add :: "env \<Rightarrow> jsval \<Rightarrow> jsval \<Rightarrow> jsval attempt" where
  "js_add e a b =
     (if coercion_throws a \<or> coercion_throws b then Threw TypeError
      else Returned
        (if stringish a \<or> stringish b then Str (to_string e a @ to_string e b)
         else (case (to_number e a, to_number e b) of
                 (Num x, Num y) \<Rightarrow> Num (x + y)
               | _ \<Rightarrow> NaN)))"

text \<open>\<^verbatim>\<open>Math.min(a, b)\<close>.\<close>

definition Math_min :: "env \<Rightarrow> jsval \<Rightarrow> jsval \<Rightarrow> jsval attempt" where
  "Math_min e a b =
     (if coercion_throws a \<or> coercion_throws b then Threw TypeError
      else Returned
        (case (to_number e a, to_number e b) of
           (Num x, Num y) \<Rightarrow> Num (min x y)
         | _ \<Rightarrow> NaN))"

section \<open>Mock Data Generator\<close>

text \<open>
  The four literal entries of the array built by \<^verbatim>\<open>mockSpots\<close>. Each takes the value of
  \<^verbatim>\<open>q.includes('paris')\<close>, the seed, the resolved center and the reading of the clock that
  stamps it. The characters outside ASCII are the code units of the source file.
\<close>

definition mock_spot_1 :: "bool \<Rightarrow> nat \<Rightarrow> real \<Rightarrow> real \<Rightarrow> nat \<Rightarrow> FoodSpot" where
  "mock_spot_1 paris seed centerLat centerLng stamp =
     \<lparr>spot_id = str ''mock-1-'' @ show_nat seed,
      name = (if paris then Str (str ''Le Bistrot'') else Str (str ''Paragon Restaurant'')),
      cuisine = (if paris then Str (str ''French'') else Str (str ''Kerala / Malabar'')),
      address = (if paris then Str (str ''Rue de Rivoli'') else Str (str ''Edappally'')),
      priceRange = Str (str ''Medium''),
      coordinates = \<lparr>lat = Num (centerLat + 0.002), lng = Num (centerLng - 0.003)\<rparr>,
      sentimentScore = Num 98,
      trendingScore = Num 95,
      popularityVelocity = Num (12),
      bestDishes = (if paris then Arr [Str (str ''Escargots''), Str (str ''Steak Frites'')] else Arr [Str (str ''Fish Mango Curry''), Str (str ''Chicken Biryani''), Str (str ''Elaneer Payasam'')]),
      description = (if paris then Str (str ''Classic Parisian dining experience.'') else Str (str ''Legendary culinary landmark famous for authentic Malabar biryani.'')),
      aiConfidence = Num 99,
      influencerData =
        \<lparr>summary = Str (str ''Must-visit for authentic flavors''), sourceCount = 540,
         topMentionedBy = Arr [Str (str ''@eat_local''), Str (str ''@foodie_daily'')]\<rparr>,
      viralPosts =
        Arr
         [Obj [(str ''handle'', Str (str ''@top_eats'')), (str ''caption'', Str (str ''The BEST in town! '' @ [0xF8FF, 0xFC, 0xE7, 0xF5, 0xF8FF, 0xFC, 0xEE, 0x2022] @ str '' The biryani is to die for.'')),
               (str ''likes'', Str (str ''45.2k'')),
               (str ''imageUrl'', Str (str ''https://images.unsplash.com/photo-1633945274405-b6c8069047b0?w=500&q=80'')),
               (str ''isReel'', Bool True)],
          Obj [(str ''handle'', Str (str ''@travel_eats_kerala'')), (str ''caption'', Str (str ''Crowd is crazy but worth the wait. #paragon'')),
               (str ''likes'', Str (str ''8.1k'')),
               (str ''imageUrl'', Str (str ''https://images.unsplash.com/photo-1589302168068-964664d93dc0?w=500&q=80'')),
               (str ''isReel'', Bool False)]],
      lastUpdated = stamp\<rparr>"

definition mock_spot_2 :: "bool \<Rightarrow> nat \<Rightarrow> real \<Rightarrow> real \<Rightarrow> nat \<Rightarrow> FoodSpot" where
  "mock_spot_2 paris seed centerLat centerLng stamp =
     \<lparr>spot_id = str ''mock-2-'' @ show_nat seed,
      name = (if paris then Str (str ''Cafe de Flore'') else Str (str ''Kashi Art Cafe'')),
      cuisine = Str (str ''Cafe''),
      address = (if paris then Str (str ''Saint-Germain'') else Str (str ''Fort Kochi'')),
      priceRange = Str (str ''Medium''),
      coordinates = \<lparr>lat = Num (centerLat - 0.004), lng = Num (centerLng - 0.012)\<rparr>,
      sentimentScore = Num 94,
      trendingScore = Num 88,
      popularityVelocity = Num (5),
      bestDishes = Arr [Str (str ''Chocolate Cake''), Str (str ''Coffee'')],
      description = Str (str ''Artsy ambiance perfect for casual meetups.''),
      aiConfidence = Num 96,
      influencerData =
        \<lparr>summary = Str (str ''Instagrammable art spots''), sourceCount = 320,
         topMentionedBy = Arr [Str (str ''@travel_diaries'')]\<rparr>,
      viralPosts =
        Arr
         [Obj [(str ''handle'', Str (str ''@artandfood'')), (str ''caption'', Str (str ''Coffee + Art = Perfect Sunday '' @ [0xF8FF, 0xFC, 0xE9, 0xAE, 0x201A, 0xF2, 0xEF, 0xD4, 0x220F, 0xE8])),
               (str ''likes'', Str (str ''12k'')),
               (str ''imageUrl'', Str (str ''https://images.unsplash.com/photo-1554118811-1e0d58224f24?w=500&q=80'')),
               (str ''isReel'', Bool False)],
          Obj [(str ''handle'', Str (str ''@cafe_vibes'')), (str ''caption'', Str (str ''This chocolate cake is illegal '' @ [0xF8FF, 0xFC, 0xE7, 0xB4])),
               (str ''likes'', Str (str ''5.4k'')),
               (str ''imageUrl'', Str (str ''https://images.unsplash.com/photo-1578985545062-69928b1d9587?w=500&q=80'')),
               (str ''isReel'', Bool True)]],
      lastUpdated = stamp\<rparr>"

definition mock_spot_3 :: "bool \<Rightarrow> nat \<Rightarrow> real \<Rightarrow> real \<Rightarrow> nat \<Rightarrow> FoodSpot" where
  "mock_spot_3 paris seed centerLat centerLng stamp =
     \<lparr>spot_id = str ''mock-3-'' @ show_nat seed,
      name = (if paris then Str (str ''L'' @ [0x27] @ str ''Ambroisie'') else Str (str ''Grand Pavilion'')),
      cuisine = (if paris then Str (str ''Haute Cuisine'') else Str (str ''Seafood'')),
      address = (if paris then Str (str ''Place des Vosges'') else Str (str ''MG Road'')),
      priceRange = Str (str ''High''),
      coordinates = \<lparr>lat = Num (centerLat + 0.005), lng = Num (centerLng + 0.002)\<rparr>,
      sentimentScore = Num 90,
      trendingScore = Num 82,
      popularityVelocity = Num (- 1),
      bestDishes = Arr [Str (str ''Seafood Platter''), Str (str ''Signature Curry'')],
      description = Str (str ''Classic fine dining spot known for traditional preparation.''),
      aiConfidence = Num 92,
      influencerData =
        \<lparr>summary = Str (str ''Consistent quality over decades''), sourceCount = 150,
         topMentionedBy = Arr [Str (str ''@chef_fan'')]\<rparr>,
      viralPosts =
        Arr
         [Obj [(str ''handle'', Str (str ''@fine_dining'')), (str ''caption'', Str (str ''Dinner date perfection. '' @ [0xF8FF, 0xFC, 0xE7, 0x2211])),
               (str ''likes'', Str (str ''8.5k'')),
               (str ''imageUrl'', Str (str ''https://images.unsplash.com/photo-1599084993091-1cb5c0721cc6?w=500&q=80'')),
               (str ''isReel'', Bool False)]],
      lastUpdated = stamp\<rparr>"

definition mock_spot_4 :: "bool \<Rightarrow> nat \<Rightarrow> real \<Rightarrow> real \<Rightarrow> nat \<Rightarrow> FoodSpot" where
  "mock_spot_4 paris seed centerLat centerLng stamp =
     \<lparr>spot_id = str ''mock-4-'' @ show_nat seed,
      name = (if paris then Str (str ''Big Mamma'') else Str (str ''District 7 Restro Cafe'')),
      cuisine = Str (str ''Italian/Fusion''),
      address = (if paris then Str (str ''Oberkampf'') else Str (str ''Vyttila'')),
      priceRange = Str (str ''Medium''),
      coordinates = \<lparr>lat = Num (centerLat - 0.001), lng = Num (centerLng + 0.008)\<rparr>,
      sentimentScore = Num 88,
      trendingScore = Num 96,
      popularityVelocity = Num (25),
      bestDishes = Arr [Str (str ''Truffle Pasta''), Str (str ''Loaded Burger'')],
      description = Str (str ''Trending spot for heavy meals and youth crowd vibes.''),
      aiConfidence = Num 85,
      influencerData =
        \<lparr>summary = Str (str ''Viral food challenges''), sourceCount = 410,
         topMentionedBy = Arr [Str (str ''@food_hunter'')]\<rparr>,
      viralPosts =
        Arr
         [Obj [(str ''handle'', Str (str ''@burger_king_local'')), (str ''caption'', Str (str ''Can you finish this? '' @ [0xF8FF, 0xFC, 0xE7, 0xEE, 0xF8FF, 0xFC, 0xE7, 0xEE])),
               (str ''likes'', Str (str ''22k'')),
               (str ''imageUrl'', Str (str ''https://images.unsplash.com/photo-1568901346375-23c9450c58cd?w=500&q=80'')),
               (str ''isReel'', Bool True)],
          Obj [(str ''handle'', Str (str ''@food_challenges'')), (str ''caption'', Str (str ''Challenge accepted! '' @ [0xF8FF, 0xFC, 0xEE, 0x2022])),
               (str ''likes'', Str (str ''15k'')),
               (str ''imageUrl'', Str (str ''https://images.unsplash.com/photo-1550547660-d9450f859349?w=500&q=80'')),
               (str ''isReel'', Bool True)]],
      lastUpdated = stamp\<rparr>"

text \<open>
  \<^verbatim>\<open>mockSpots\<close>: the location is recognised on the lower-cased query; an unknown query keeps
  the coordinates it was given and becomes the location name. The seed is the length of the
  location name. Each entry reads the clock for its \<^verbatim>\<open>lastUpdated\<close>.
\<close>

definition mockSpots :: "env \<Rightarrow> jsstring \<Rightarrow> real \<Rightarrow> real \<Rightarrow> world \<Rightarrow> DiscoveryResult \<times> world" where
  "mockSpots e query lat0 lng0 w =
     (let q = toLowerCase e query;
          (centerLat, centerLng, locName) =
            (if includes_str q (str ''paris'') then (48.8566, 2.3522, str ''Paris, France'')
             else if includes_str q (str ''new york'') then (40.7128, - 74.0060, str ''New York, USA'')
             else if includes_str q (str ''kochi'') \<or> query = str ''Kochi, Kerala''
               then (9.9312, 76.2673, str ''Kochi, Kerala'')
             else (lat0, lng0, query));
          seed = length locName;
          (t1, w1) = Date_now e w;
          (t2, w2) = Date_now e w1;
          (t3, w3) = Date_now e w2;
          (t4, w4) = Date_now e w3
      in (\<lparr>spots =
            [mock_spot_1 (includes_str q (str ''paris'')) seed centerLat centerLng t1,
             mock_spot_2 (includes_str q (str ''paris'')) seed centerLat centerLng t2,
             mock_spot_3 (includes_str q (str ''paris'')) seed centerLat centerLng t3,
             mock_spot_4 (includes_str q (str ''paris'')) seed centerLat centerLng t4],
           center = \<lparr>lat = Num centerLat, lng = Num centerLng\<rparr>,
           locationName = Str locName\<rparr>, w4))"

section \<open>Discovery Service\<close>

text \<open>
  \<^verbatim>\<open>requestCache\<close> is an object literal, so reading \<^verbatim>\<open>requestCache[cacheKey]\<close> finds an own
  property or else a member of \<^verbatim>\<open>Object.prototype\<close>; every such member is a function or an
  object, hence truthy. A value read from the cache is therefore a stored result or the
  inherited member of that name.
\<close>

definition Object_prototype :: "jsstring list" where
  "Object_prototype =
     map str
       [''constructor'', ''__defineGetter__'', ''__defineSetter__'', ''hasOwnProperty'',
        ''__lookupGetter__'', ''__lookupSetter__'', ''isPrototypeOf'', ''propertyIsEnumerable'',
        ''toString'', ''valueOf'', ''__proto__'', ''toLocaleString'']"

datatype returned = Result DiscoveryResult | Inherited jsstring

definition cache_read :: "(jsstring \<rightharpoonup> DiscoveryResult) \<Rightarrow> jsstring \<Rightarrow> returned option" where
  "cache_read c k =
     (case c k of
        Some r \<Rightarrow> Some (Result r)
      | None \<Rightarrow> if k \<in> set Object_prototype then Some (Inherited k) else None)"

definition prompt_of :: "jsstring \<Rightarrow> jsstring" where
  "prompt_of query =
      [0x0A] @
      str ''      You are an autonomous AI food discovery agent.'' @
      [0x0A] @
      str ''      '' @
      [0x0A] @
      str ''      Task:'' @
      [0x0A] @
      str ''      1. Analyze the query '' @ [0x22] @ query @
      [0x22] @ str ''. If it is a location (e.g., '' @ [0x22] @ str ''Tokyo'' @ [0x22] @ str ''), identify its geographic center (lat/lng). If it is a generic food search (e.g., '' @ [0x22] @ str ''Sushi'' @ [0x22] @ str ''), use the provided current location coordinates.'' @
      [0x0A] @
      str ''      2. Find between 6 to 12 trending food spots in that area. '' @
      [0x0A] @
      str ''      3. CRITICAL: All spots MUST be within a STRICT 5km radius of the location center. Do not recommend spots further away.'' @
      [0x0A] @
      str ''      4. For each spot, analyze recent social sentiment (TikTok/Instagram) to generate scores.'' @
      [0x0A] @
      str ''      5. Provide EXACT latitude and longitude for each spot to ensure map accuracy.'' @
      [0x0A] @
      str ''      6. For each spot, create 1 or 2 simulated viral social media posts (Instagram/TikTok style) that capture the vibe. Mark some as Reels.'' @
      [0x0A] @
      str ''      7. Return a structured JSON object containing the region details and the list of spots.'' @
      [0x0A] @
      str ''    ''"

text \<open>
  \<^verbatim>\<open>given || region + (Math.random() * 0.02 - 0.01)\<close>: a truthy coordinate of the record is kept;
  otherwise a random value is read and added to the coordinate of the region, which throws
  when that coordinate cannot be converted to a primitive.
\<close>

definition coordinate :: "env \<Rightarrow> jsval \<Rightarrow> jsval \<Rightarrow> world \<Rightarrow> jsval attempt \<times> world" where
  "coordinate e given region w =
     (if truthy given then (Returned given, w)
      else let (r, w') = Math_random e w
           in (js_add e region (Num (r * 0.02 - 0.01)), w'))"

text \<open>
  \<^verbatim>\<open>item.viralPosts || [{...}]\<close>: the array literal is evaluated only when the record has no
  truthy \<^verbatim>\<open>viralPosts\<close>; its caption converts \<^verbatim>\<open>item.name\<close> to a string, which may throw.
\<close>

definition viral_posts :: "env \<Rightarrow> jsval \<Rightarrow> nat \<Rightarrow> jsval attempt" where
  "viral_posts e item index =
     (if truthy (getp item (str ''viralPosts'')) then Returned (getp item (str ''viralPosts''))
      else
        (case ToString e (getp item (str ''name'')) of
           Threw err \<Rightarrow> Threw err
         | Returned nm \<Rightarrow>
             Returned
               (Arr [Obj [(str ''handle'', Str (str ''@foodie_explorer'')),
                          (str ''caption'',
                           Str (str ''Checking out '' @ nm @ str ''! The vibes are unmatched. #foodie'')),
                          (str ''likes'', Str (str ''12.5k'')),
                          (str ''imageUrl'',
                           Str (str ''https://picsum.photos/seed/'' @ show_nat index @ str ''/400/400'')),
                          (str ''isReel'', Bool True)]])))"

text \<open>
  The function mapped over \<^verbatim>\<open>spotsList\<close>, in evaluation order: the clock for the id, the
  properties of the item (a TypeError when the item is null), the two coordinates, a random
  value for \<^verbatim>\<open>sourceCount\<close>, the viral posts, the clock for \<^verbatim>\<open>lastUpdated\<close>.
\<close>

definition process_spot ::
  "env \<Rightarrow> jsval \<Rightarrow> jsval \<Rightarrow> jsval \<Rightarrow> nat \<Rightarrow> world \<Rightarrow> FoodSpot attempt \<times> world" where
  "process_spot e regionLat regionLng item index w =
     (let (t, w1) = Date_now e w in
      if nullish item then (Threw TypeError, w1)
      else
        (case coordinate e (getp item (str ''latitude'')) regionLat w1 of
           (Threw err, w2) \<Rightarrow> (Threw err, w2)
         | (Returned lat1, w2) \<Rightarrow>
        (case coordinate e (getp item (str ''longitude'')) regionLng w2 of
           (Threw err, w3) \<Rightarrow> (Threw err, w3)
         | (Returned lng1, w3) \<Rightarrow>
        (let (r3, w4) = Math_random e w3 in
         case viral_posts e item index of
           Threw err \<Rightarrow> (Threw err, w4)
         | Returned posts \<Rightarrow>
        (let (t5, w5) = Date_now e w4 in
         (Returned
           \<lparr>spot_id = str ''gemini-'' @ show_nat t @ str ''-'' @ show_nat index,
            name = getp item (str ''name''),
            cuisine = getp item (str ''cuisine''),
            address = getp item (str ''address''),
            priceRange = getp item (str ''priceRange''),
            coordinates = \<lparr>lat = lat1, lng = lng1\<rparr>,
            sentimentScore = getp item (str ''sentimentScore''),
            trendingScore = getp item (str ''trendingScore''),
            popularityVelocity = getp item (str ''popularityVelocity''),
            bestDishes = getp item (str ''bestDishes''),
            description = getp item (str ''description''),
            aiConfidence = getp item (str ''aiConfidence''),
            influencerData =
              \<lparr>summary =
                 or_else (getp item (str ''influencerSummary'')) (Str (str ''Trending on social feeds'')),
               sourceCount = \<lfloor>r3 * 50\<rfloor> + 10,
               topMentionedBy = or_else (getp item (str ''topInfluencers'')) (Arr [])\<rparr>,
            viralPosts = posts,
            lastUpdated = t5\<rparr>, w5))))))"

text \<open>\<^verbatim>\<open>spotsList.map\<close>: the items in order with their index; a throw ends the map.\<close>

fun process_spots ::
  "env \<Rightarrow> jsval \<Rightarrow> jsval \<Rightarrow> nat \<Rightarrow> jsval list \<Rightarrow> world \<Rightarrow> FoodSpot list attempt \<times> world" where
  "process_spots e regionLat regionLng index [] w = (Returned [], w)"
| "process_spots e regionLat regionLng index (item # items) w =
     (case process_spot e regionLat regionLng item index w of
        (Threw err, w1) \<Rightarrow> (Threw err, w1)
      | (Returned s, w1) \<Rightarrow>
          (case process_spots e regionLat regionLng (Suc index) items w1 of
             (Threw err, w2) \<Rightarrow> (Threw err, w2)
           | (Returned ss, w2) \<Rightarrow> (Returned (s # ss), w2)))"

text \<open>
  The body of the \<^verbatim>\<open>try\<close> block after the credential check: one request to the backend,
  \<^verbatim>\<open>JSON.parse\<close> of its text (or of \<^verbatim>\<open>'{}'\<close>), the region with its defaults, and the map over
  the spots. Calling \<^verbatim>\<open>map\<close> on a truthy value that is not an array is a TypeError.
\<close>

definition upstream ::
  "env \<Rightarrow> jsstring \<Rightarrow> real \<Rightarrow> real \<Rightarrow> world \<Rightarrow> DiscoveryResult attempt \<times> world" where
  "upstream e query currentLat currentLng w =
     (let w1 = w\<lparr>upstream_calls := Suc (upstream_calls w)\<rparr> in
      case generateContent e (upstream_calls w) (prompt_of query) of
        Rejected \<Rightarrow> (Threw ApiError, w1)
      | Resolved text \<Rightarrow>
          (case JSON_parse e
                  (case text of None \<Rightarrow> str ''{}'' | Some s \<Rightarrow> if s = [] then str ''{}'' else s) of
             None \<Rightarrow> (Threw SyntaxError, w1)
           | Some rawData \<Rightarrow>
               if nullish rawData then (Threw TypeError, w1)
               else
                 let regionName = or_else (getp rawData (str ''regionName'')) (Str query);
                     regionLat = or_else (getp rawData (str ''regionLat'')) (Num currentLat);
                     regionLng = or_else (getp rawData (str ''regionLng'')) (Num currentLng);
                     spotsList = or_else (getp rawData (str ''spots'')) (Arr [])
                 in (case spotsList of
                       Arr items \<Rightarrow>
                         (case process_spots e regionLat regionLng 0 items w1 of
                            (Threw err, w2) \<Rightarrow> (Threw err, w2)
                          | (Returned processedSpots, w2) \<Rightarrow>
                              (Returned
                                \<lparr>spots = processedSpots,
                                 center = \<lparr>lat = regionLat, lng = regionLng\<rparr>,
                                 locationName = regionName\<rparr>, w2))
                     | _ \<Rightarrow> (Threw TypeError, w1))))"

text \<open>
  \<^verbatim>\<open>fetchFoodSpots\<close>. The cache key is the lower-cased, trimmed query. A truthy value read
  from the cache is returned as it is. Otherwise the result of the mock generator (no
  credential, or a throw in the \<^verbatim>\<open>try\<close> block) or of the backend is stored under the key and
  returned. The stores are reached only after the read found nothing, so the key is then not
  a member of \<^verbatim>\<open>Object.prototype\<close> and the assignment creates an own property.
\<close>

definition fetchFoodSpots :: "env \<Rightarrow> jsstring \<Rightarrow> real \<Rightarrow> real \<Rightarrow> world \<Rightarrow> returned \<times> world" where
  "fetchFoodSpots e query currentLat currentLng w =
     (let cacheKey = trim (toLowerCase e query) in
      case cache_read (requestCache w) cacheKey of
        Some v \<Rightarrow> (v, w)
      | None \<Rightarrow>
          if API_KEY e = None \<or> API_KEY e = Some []
          then
            let w1 = console_log (str ''No API Key provided. Returning mock data.'') w;
                (mockResult, w2) = mockSpots e query currentLat currentLng w1
            in (Result mockResult, w2\<lparr>requestCache := (requestCache w2)(cacheKey \<mapsto> mockResult)\<rparr>)
          else
            (case upstream e query currentLat currentLng w of
               (Returned finalResult, w1) \<Rightarrow>
                 (Result finalResult, w1\<lparr>requestCache := (requestCache w1)(cacheKey \<mapsto> finalResult)\<rparr>)
             | (Threw err, w1) \<Rightarrow>
                 let w2 = console_log (str ''Gemini API Error:'') w1;
                     (fallback, w3) = mockSpots e query currentLat currentLng w2
                 in (Result fallback, w3\<lparr>requestCache := (requestCache w3)(cacheKey \<mapsto> fallback)\<rparr>)))"

section \<open>Weekly refresh (App component)\<close>

text \<open>\<^verbatim>\<open>addLog\<close>: appends an entry with a random id and the current time.\<close>

definition addLog :: "env \<Rightarrow> jsstring \<Rightarrow> AgentType \<Rightarrow> world \<Rightarrow> world" where
  "addLog e msg a w =
     (let (r, w1) = Math_random e w;
          (t, w2) = Date_now e w1
      in w2\<lparr>agentLogs := agentLogs w2 @
              [\<lparr>log_id = drop 7 (toString36 e r), timestamp = t, message = msg, agent = a\<rparr>]\<rparr>)"

text \<open>
  The function mapped over the spots by the timer callback of \<^verbatim>\<open>handleWeeklyRefresh\<close>: a random
  value, the sum with the held score (a TypeError when the score cannot be converted to a
  primitive), the minimum with 100, the clock.
\<close>

definition refresh_spot :: "env \<Rightarrow> FoodSpot \<Rightarrow> world \<Rightarrow> FoodSpot attempt \<times> world" where
  "refresh_spot e s w =
     (let (r, w1) = Math_random e w in
      case js_add e (trendingScore s) (Num (of_int \<lfloor>r * 10 - 3\<rfloor>)) of
        Threw err \<Rightarrow> (Threw err, w1)
      | Returned added \<Rightarrow>
          (case Math_min e (Num 100) added of
             Threw err \<Rightarrow> (Threw err, w1)
           | Returned score \<Rightarrow>
               let (t, w2) = Date_now e w1
               in (Returned (s\<lparr>trendingScore := score, lastUpdated := t\<rparr>), w2)))"

fun refresh_spots :: "env \<Rightarrow> FoodSpot list \<Rightarrow> world \<Rightarrow> FoodSpot list attempt \<times> world" where
  "refresh_spots e [] w = (Returned [], w)"
| "refresh_spots e (s # ss) w =
     (case refresh_spot e s w of
        (Threw err, w1) \<Rightarrow> (Threw err, w1)
      | (Returned s', w1) \<Rightarrow>
          (case refresh_spots e ss w1 of
             (Threw err, w2) \<Rightarrow> (Threw err, w2)
           | (Returned ss', w2) \<Rightarrow> (Returned (s' # ss'), w2)))"

text \<open>
  The timer callback, closed over the spots held when the handler ran: when the map throws,
  the callback ends there and the state variables stay as they are. The handler: nothing
  happens on an empty list; otherwise the agent is set, a line is logged and the callback
  is scheduled after 2500 ms. \<open>weeklyRefresh\<close> is the whole action: the handler, then the
  callback once its delay has passed.
\<close>

definition refresh_callback :: "env \<Rightarrow> FoodSpot list \<Rightarrow> world \<Rightarrow> world" where
  "refresh_callback e captured w =
     (case refresh_spots e captured w of
        (Threw err, w1) \<Rightarrow> w1
      | (Returned updatedSpots, w1) \<Rightarrow>
          (let w2 = w1\<lparr>held_spots := updatedSpots\<rparr>;
               w3 = addLog e (str ''Refresh complete. Trends updated.'') IDLE w2
           in w3\<lparr>activeAgent := IDLE\<rparr>))"

definition handleWeeklyRefresh :: "env \<Rightarrow> world \<Rightarrow> world \<times> (nat \<times> FoodSpot list) option" where
  "handleWeeklyRefresh e w =
     (if length (held_spots w) = 0 then (w, None)
      else
        let w1 = w\<lparr>activeAgent := REFRESH\<rparr>;
            w2 = addLog e (str ''Executing Weekly Analytics Refresh...'') REFRESH w1
        in (w2, Some (2500, held_spots w)))"

definition weeklyRefresh :: "env \<Rightarrow> world \<Rightarrow> world" where
  "weeklyRefresh e w =
     (case handleWeeklyRefresh e w of
        (w1, None) \<Rightarrow> w1
      | (w1, Some (delay, captured)) \<Rightarrow> refresh_callback e captured (elapse delay w1))"

section \<open>Auxiliary definitions and sample inputs\<close>

text \<open>A result with the time stamps of its spots blanked, to compare results up to the stamps.\<close>

definition erase_stamps :: "DiscoveryResult \<Rightarrow> DiscoveryResult" where
  "erase_stamps r = r\<lparr>spots := map (\<lambda>s. s\<lparr>lastUpdated := 0\<rparr>) (spots r)\<rparr>"

text \<open>
  The spots and the location name of a returned value; an inherited member of the prototype
  has neither.
\<close>

fun result_spots :: "returned \<Rightarrow> FoodSpot list" where
  "result_spots (Result r) = spots r"
| "result_spots (Inherited k) = []"

fun result_name :: "returned \<Rightarrow> jsval" where
  "result_name (Result r) = locationName r"
| "result_name (Inherited k) = Undefined"

text \<open>
  The map over the spot records completes on a record exactly when the record is not null
  and none of the conversions it needs throws: the region coordinate is converted when the
  coordinate of the record is falsy, the name when the record has no truthy viral posts
  (lemmas \<open>process_spot_total\<close> and \<open>process_spot_Threw\<close> below).
\<close>

definition spot_ok :: "jsval \<Rightarrow> jsval \<Rightarrow> jsval \<Rightarrow> bool" where
  "spot_ok regionLat regionLng item =
     (\<not> nullish item \<and>
      (truthy (getp item (str ''latitude'')) \<or> \<not> coercion_throws regionLat) \<and>
      (truthy (getp item (str ''longitude'')) \<or> \<not> coercion_throws regionLng) \<and>
      (truthy (getp item (str ''viralPosts'')) \<or> \<not> coercion_throws (getp item (str ''name''))))"

text \<open>
  The number of random values the map reads for a record (one for each falsy coordinate and
  one for \<^verbatim>\<open>sourceCount\<close>), and for the records before the j-th.
\<close>

definition item_reads :: "jsval \<Rightarrow> nat" where
  "item_reads item =
     (if truthy (getp item (str ''latitude'')) then 0 else 1) +
     (if truthy (getp item (str ''longitude'')) then 0 else 1) + 1"

definition reads_before :: "jsval list \<Rightarrow> nat \<Rightarrow> nat" where
  "reads_before items j = sum_list (map item_reads (take j items))"




text \<open>
  A sample payload of the backend: a region and two spot records. The records carry the
  fields the response schema requires and none of the optional ones (address, priceRange,
  popularityVelocity, aiConfidence, influencerSummary, topInfluencers, viralPosts); the
  first has longitude 0.
\<close>

definition sample_items :: "jsval list" where
  "sample_items =
     [Obj [(str ''name'', Str (str ''Sushi Dai'')), (str ''cuisine'', Str (str ''Sushi'')),
           (str ''sentimentScore'', Num 93), (str ''trendingScore'', Num 91),
           (str ''bestDishes'', Arr [Str (str ''Omakase'')]),
           (str ''description'', Str (str ''Counter sushi with a long queue.'')),
           (str ''latitude'', Num 35.6655), (str ''longitude'', Num 0)],
      Obj [(str ''name'', Str (str ''Ichiran'')), (str ''cuisine'', Str (str ''Ramen'')),
           (str ''sentimentScore'', Num 90), (str ''trendingScore'', Num 88),
           (str ''bestDishes'', Arr [Str (str ''Tonkotsu Ramen'')]),
           (str ''description'', Str (str ''Solo booths and rich broth.'')),
           (str ''latitude'', Num 35.6595), (str ''longitude'', Num 139.7005)]]"

definition sample_payload :: jsval where
  "sample_payload =
     Obj [(str ''regionName'', Str (str ''Tokyo, Japan'')),
          (str ''regionLat'', Num 35.6762),
          (str ''regionLng'', Num 139.6503),
          (str ''spots'', Arr sample_items)]"

text \<open>
  A sample environment with a credential, whose backend always answers with a text (here
  the word sample) that parses to the sample payload, and the same environment without the
  credential. Math.random always yields 0.95 and the clock advances by 1 ms after each
  reading; the conversions between numbers and strings and the lower-casing outside ASCII
  play no role on these inputs.
\<close>

definition sample_env :: env where
  "sample_env =
     \<lparr>API_KEY = Some (str ''key''),
      generateContent = (\<lambda>k p. Resolved (Some (str ''sample''))),
      JSON_parse = (\<lambda>s. if s = str ''sample'' then Some sample_payload else None),
      random_values = (\<lambda>k. 0.95),
      clock_ticks = (\<lambda>k. 1),
      Number_toString = (\<lambda>x. []),
      StringToNumber = (\<lambda>s. NaN),
      toString36 = (\<lambda>x. str ''0.abcdefghijk''),
      unicode_toLowerCase = (\<lambda>s. s)\<rparr>"

definition sample_env_no_key :: env where
  "sample_env_no_key = sample_env\<lparr>API_KEY := None\<rparr>"

text \<open>
  A payload at latitude and longitude zero: the region has an empty name and the center
  (0, 0), and its only spot record has latitude 0 and longitude 0. An environment whose
  backend answers with it.
\<close>

definition zero_items :: "jsval list" where
  "zero_items =
     [Obj [(str ''name'', Str (str ''Equator Grill'')), (str ''cuisine'', Str (str ''Seafood'')),
           (str ''sentimentScore'', Num 80), (str ''trendingScore'', Num 75),
           (str ''bestDishes'', Arr [Str (str ''Grilled Fish'')]),
           (str ''description'', Str (str ''A grill on the equator.'')),
           (str ''latitude'', Num 0), (str ''longitude'', Num 0)]]"

definition zero_payload :: jsval where
  "zero_payload =
     Obj [(str ''regionName'', Str []),
          (str ''regionLat'', Num 0),
          (str ''regionLng'', Num 0),
          (str ''spots'', Arr zero_items)]"

definition zero_env :: env where
  "zero_env =
     sample_env\<lparr>JSON_parse := (\<lambda>s. if s = str ''sample'' then Some zero_payload else None)\<rparr>"

text \<open>
  A payload whose region latitude is an object with an own property \<^verbatim>\<open>toString\<close>, as
  \<^verbatim>\<open>JSON.parse\<close> yields for \<^verbatim>\<open>{"regionLat": {"toString": 0}, "spots": [{"name": "A"}, {"name": "B"}]}\<close>,
  and an environment whose backend answers with it.
\<close>

definition stuck_payload :: jsval where
  "stuck_payload =
     Obj [(str ''regionLat'', Obj [(str ''toString'', Num 0)]),
          (str ''spots'', Arr [Obj [(str ''name'', Str (str ''A''))],
                               Obj [(str ''name'', Str (str ''B''))]])]"

definition stuck_env :: env where
  "stuck_env =
     sample_env\<lparr>JSON_parse := (\<lambda>s. if s = str ''sample'' then Some stuck_payload else None)\<rparr>"

text \<open>
  A world that holds the four mock spots of the query Tokyo, stamped at the times 0 to 3,
  at time 10; a world that holds one spot whose score is an object with an own property
  \<^verbatim>\<open>toString\<close>, as \<^verbatim>\<open>JSON.parse\<close> yields for \<^verbatim>\<open>{"toString": 0}\<close>; and a world at time 0 that
  holds one spot stamped at the time 10000.
\<close>

definition sample_held :: world where
  "sample_held =
     initial_world
       \<lparr>held_spots := spots (fst (mockSpots sample_env_no_key (str ''Tokyo'') 35 139 initial_world)),
        now := 10\<rparr>"

definition stuck_held :: world where
  "stuck_held =
     initial_world
       \<lparr>held_spots := [(mock_spot_1 False 5 35 139 0)\<lparr>trendingScore := Obj [(str ''toString'', Num 0)]\<rparr>],
        now := 10\<rparr>"

definition future_held :: world where
  "future_held = initial_world\<lparr>held_spots := [mock_spot_1 False 5 35 139 10000]\<rparr>"

text \<open>
  The delta added to the score of the i-th held spot by a refresh started in the state \<open>w\<close>:
  \<^verbatim>\<open>Math.floor(Math.random() * 10 - 3)\<close>, on the random value read after the one that the log
  entry of the handler and the spots before it took.
\<close>

definition refresh_delta :: "env \<Rightarrow> world \<Rightarrow> nat \<Rightarrow> int" where
  "refresh_delta e w i = \<lfloor>random_values e (Suc (random_reads w) + i) * 10 - 3\<rfloor>"

text \<open>A world with the state of the Discovery Service (cache and request count) replaced.\<close>

definition with_service :: "(jsstring \<rightharpoonup> DiscoveryResult) \<Rightarrow> nat \<Rightarrow> world \<Rightarrow> world" where
  "with_service c n w = w\<lparr>requestCache := c, upstream_calls := n\<rparr>"

section \<open>Strings\<close>

lemma str_simps:
  "str [] = []" "str (c # cs) = of_char c # str cs" "str (s @ t) = str s @ str t"
  by (simp_all add: str_def)

lemma length_str [simp]: "length (str s) = length s"
  by (simp add: str_def)

lemma str_eq_iff [simp]: "str s = str t \<longleftrightarrow> s = t"
  by (simp add: str_def inj_map_eq_map inj_on_def)

lemmas str_eval = str_def trim_def toLowerCase_def toLowerUnit_def isWhiteSpace_def

lemmas mock_spot_defs = mock_spot_1_def mock_spot_2_def mock_spot_3_def mock_spot_4_def

lemmas sample_defs =
  sample_env_def sample_env_no_key_def sample_payload_def sample_items_def initial_world_def
  zero_payload_def zero_items_def zero_env_def stuck_payload_def stuck_env_def

section \<open>Properties of the cache\<close>

lemma fetch_stores:
  assumes "fetchFoodSpots e q a b w = (r, w')"
  shows "cache_read (requestCache w') (trim (toLowerCase e q)) = Some r"
proof (cases "cache_read (requestCache w) (trim (toLowerCase e q))")
  case (Some v)
  with assms show ?thesis by (simp add: fetchFoodSpots_def)
next
  case None
  with assms show ?thesis
    by (auto simp: fetchFoodSpots_def cache_read_def Let_def
        split: if_splits prod.splits attempt.splits)
qed

lemma fetch_hit:
  assumes "cache_read (requestCache w) (trim (toLowerCase e q)) = Some r"
  shows "fetchFoodSpots e q a b w = (r, w)"
  using assms by (simp add: fetchFoodSpots_def)

lemma fetch_miss_Result:
  assumes "cache_read (requestCache w) (trim (toLowerCase e q)) = None"
  shows "\<exists>r w'. fetchFoodSpots e q a b w = (Result r, w')"
  using assms
  by (auto simp: fetchFoodSpots_def Let_def split: if_splits prod.splits attempt.splits)

lemma fetchFoodSpots_total_otherwise:
  assumes "trim (toLowerCase e q) \<notin> set Object_prototype"
  shows "\<exists>r w'. fetchFoodSpots e q a b w = (Result r, w')"
proof (cases "cache_read (requestCache w) (trim (toLowerCase e q))")
  case None
  then show ?thesis by (rule fetch_miss_Result)
next
  case (Some v)
  with assms obtain r where "v = Result r"
    by (auto simp: cache_read_def split: option.splits if_splits)
  with Some show ?thesis by (simp add: fetch_hit)
qed

text \<open>
  C1. The claim: for every query, \<^verbatim>\<open>fetchFoodSpots\<close> resolves to a DiscoveryResult with a
  non-null spot list. On the query \<^verbatim>\<open>constructor\<close>, in a fresh process and whatever the
  environment, the read of the cache finds the inherited \<^verbatim>\<open>Object.prototype.constructor\<close>,
  which is truthy, and that function is returned: it is no DiscoveryResult and has no spots.
\<close>

theorem fetchFoodSpots_inherited_member:
  "fst (fetchFoodSpots e (str ''constructor'') a b initial_world) = Inherited (str ''constructor'')"
  by (simp add: fetchFoodSpots_def cache_read_def initial_world_def Object_prototype_def str_eval)

text \<open>
  C2. Two calls whose queries are equal after case-folding and trimming, that is, have the
  same key \<^verbatim>\<open>query.toLowerCase().trim()\<close>: the second call returns what the first returned and
  leaves the state as the first call left it, so it sends no request to the backend,
  whatever its coordinates.
\<close>

theorem fetchFoodSpots_cache_idempotent:
  assumes "trim (toLowerCase e q1) = trim (toLowerCase e q2)"
    and "fetchFoodSpots e q1 a b w = (r1, w1)"
  shows "fst (fetchFoodSpots e q2 c d w1) = r1 \<and>
         snd (fetchFoodSpots e q2 c d w1) = w1 \<and>
         upstream_calls (snd (fetchFoodSpots e q2 c d w1)) = upstream_calls w1"
  using fetch_stores [OF assms(2)] assms(1) by (simp add: fetch_hit)

lemmas fetch_eval =
  fetchFoodSpots_def cache_read_def Object_prototype_def str_eval sample_defs upstream_def
  or_else_def Let_def split_def process_spot_def coordinate_def viral_posts_def ToString_def
  Date_now_def Math_random_def js_add_def show_nat.simps digit_def

text \<open>
  The queries \<^verbatim>\<open>Paris\<close> and \<^verbatim>\<open>PARIS\<close> between spaces, with a credential: one request in all.
\<close>

theorem fetchFoodSpots_cache_idempotent_witness:
  "trim (toLowerCase sample_env (str ''Paris'')) = trim (toLowerCase sample_env (str ''  PARIS '')) \<and>
   fst (fetchFoodSpots sample_env (str ''  PARIS '') 9.9312 76.2673
          (snd (fetchFoodSpots sample_env (str ''Paris'') 48 2 initial_world))) =
     fst (fetchFoodSpots sample_env (str ''Paris'') 48 2 initial_world) \<and>
   upstream_calls (snd (fetchFoodSpots sample_env (str ''  PARIS '') 9.9312 76.2673
          (snd (fetchFoodSpots sample_env (str ''Paris'') 48 2 initial_world)))) = 1"
proof -
  have k: "trim (toLowerCase sample_env (str ''Paris'')) = trim (toLowerCase sample_env (str ''  PARIS ''))"
    by (simp add: str_eval)
  have u: "upstream_calls (snd (fetchFoodSpots sample_env (str ''Paris'') 48 2 initial_world)) = 1"
    by (simp add: fetch_eval)
  show ?thesis
    using k u fetchFoodSpots_cache_idempotent [OF k, of 48 2 initial_world
        "fst (fetchFoodSpots sample_env (str ''Paris'') 48 2 initial_world)"
        "snd (fetchFoodSpots sample_env (str ''Paris'') 48 2 initial_world)"
        "9.9312" "76.2673"]
    by simp
qed

section \<open>Properties of the mock generator\<close>

lemmas mock_eval = mockSpots_def Let_def Date_now_def split_def

text \<open>
  C6. For the query \<^verbatim>\<open>kochi\<close> with the coordinates (9.9312, 76.2673), in every state and
  environment: the location name is \<^verbatim>\<open>Kochi, Kerala\<close>, the center is the literal
  (9.9312, 76.2673), and the four spots have the same names and the same offsets from the center.
\<close>

theorem mockSpots_kochi:
  "locationName (fst (mockSpots e (str ''kochi'') 9.9312 76.2673 w)) = Str (str ''Kochi, Kerala'') \<and>
   center (fst (mockSpots e (str ''kochi'') 9.9312 76.2673 w)) = \<lparr>lat = Num 9.9312, lng = Num 76.2673\<rparr> \<and>
   map name (spots (fst (mockSpots e (str ''kochi'') 9.9312 76.2673 w))) =
     [Str (str ''Paragon Restaurant''), Str (str ''Kashi Art Cafe''), Str (str ''Grand Pavilion''),
      Str (str ''District 7 Restro Cafe'')] \<and>
   map coordinates (spots (fst (mockSpots e (str ''kochi'') 9.9312 76.2673 w))) =
     [\<lparr>lat = Num (9.9312 + 0.002), lng = Num (76.2673 - 0.003)\<rparr>,
      \<lparr>lat = Num (9.9312 - 0.004), lng = Num (76.2673 - 0.012)\<rparr>,
      \<lparr>lat = Num (9.9312 + 0.005), lng = Num (76.2673 + 0.002)\<rparr>,
      \<lparr>lat = Num (9.9312 - 0.001), lng = Num (76.2673 + 0.008)\<rparr>]"
  by (simp add: mock_eval str_eval mock_spot_defs)

text \<open>
  C4. The claim: two calls of \<^verbatim>\<open>mockSpots\<close> with the same query and coordinates give outputs
  equal in every field. Each spot is stamped with the time of the call, so a call made one
  second later returns a different result.
\<close>

theorem mockSpots_stamp_counterexample:
  "fst (mockSpots sample_env (str ''kochi'') 9.9312 76.2673 initial_world) \<noteq>
   fst (mockSpots sample_env (str ''kochi'') 9.9312 76.2673 (elapse 1000 initial_world))"
  by (simp add: mock_eval str_eval elapse_def initial_world_def mock_spot_defs)

text \<open>
  C4, amended. Two calls of \<^verbatim>\<open>mockSpots\<close> with the same query and coordinates, in any two
  states and environments (the case mapping, a fixed function of the language, being the
  same in both), give outputs equal in every field but the \<^verbatim>\<open>lastUpdated\<close> stamps of the
  spots.
\<close>

theorem mockSpots_reproducible:
  "erase_stamps (fst (mockSpots e q a b w)) =
   erase_stamps (fst (mockSpots (e'\<lparr>unicode_toLowerCase := unicode_toLowerCase e\<rparr>) q a b w'))"
  by (simp add: mock_eval erase_stamps_def mock_spot_defs toLowerCase_def)

lemma not_kochi:
  "\<not> includes_str (toLowerCase e q) (str ''kochi'') \<Longrightarrow> q \<noteq> str ''Kochi, Kerala''"
  by (auto simp: str_eval)

lemma mockSpots_default_branch:
  assumes "\<not> includes_str (toLowerCase e q) (str ''paris'')"
    and "\<not> includes_str (toLowerCase e q) (str ''new york'')"
    and "\<not> includes_str (toLowerCase e q) (str ''kochi'')"
  shows "locationName (fst (mockSpots e q a b w)) = Str q \<and>
     center (fst (mockSpots e q a b w)) = \<lparr>lat = Num a, lng = Num b\<rparr> \<and>
     length (spots (fst (mockSpots e q a b w))) = 4 \<and>
     map coordinates (spots (fst (mockSpots e q a b w))) =
       [\<lparr>lat = Num (a + 0.002), lng = Num (b - 0.003)\<rparr>,
        \<lparr>lat = Num (a - 0.004), lng = Num (b - 0.012)\<rparr>,
        \<lparr>lat = Num (a + 0.005), lng = Num (b + 0.002)\<rparr>,
        \<lparr>lat = Num (a - 0.001), lng = Num (b + 0.008)\<rparr>]"
  using assms not_kochi [OF assms(3)]
  by (simp add: mock_eval mock_spot_defs)

lemma length_mockSpots: "length (spots (fst (mockSpots e q a b w))) = 4"
  by (simp add: mock_eval)

lemma fetch_Tokyo_no_key:
  assumes "API_KEY e = None \<or> API_KEY e = Some []" and "requestCache w (str ''tokyo'') = None"
  shows "\<exists>r w'. fetchFoodSpots e (str ''Tokyo'') a b w = (Result r, w') \<and>
           locationName r = Str (str ''Tokyo'') \<and> length (spots r) = 4"
proof -
  have k: "trim (toLowerCase e (str ''Tokyo'')) = str ''tokyo''"
    by (simp add: str_eval)
  have c: "cache_read (requestCache w) (str ''tokyo'') = None"
    using assms(2) by (simp add: cache_read_def Object_prototype_def)
  have n: "locationName (fst (mockSpots e (str ''Tokyo'') a b w1)) = Str (str ''Tokyo'')" for w1
    by (rule mockSpots_default_branch [THEN conjunct1]) (simp_all add: str_eval)
  show ?thesis
    using assms(1) c n length_mockSpots
    by (auto simp: fetchFoodSpots_def k Let_def split_def)
qed

text \<open>
  C7. The claim: with no credential, \<^verbatim>\<open>fetchFoodSpots("Tokyo", lat, lng)\<close> resolves to the
  location name \<^verbatim>\<open>Tokyo\<close>. The queries \<^verbatim>\<open>TOKYO\<close> and \<^verbatim>\<open>Tokyo\<close> share the cache key \<^verbatim>\<open>tokyo\<close>:
  after a call with \<^verbatim>\<open>TOKYO\<close>, the call with \<^verbatim>\<open>Tokyo\<close> returns the cached result, whose
  location name is \<^verbatim>\<open>TOKYO\<close>.
\<close>

theorem fetch_Tokyo_cached_counterexample:
  "API_KEY sample_env_no_key = None \<and>
   result_name (fst (fetchFoodSpots sample_env_no_key (str ''Tokyo'') 35 139
      (snd (fetchFoodSpots sample_env_no_key (str ''TOKYO'') 35 139 initial_world)))) = Str (str ''TOKYO'') \<and>
   Str (str ''TOKYO'') \<noteq> Str (str ''Tokyo'')"
  by (simp add: fetchFoodSpots_def cache_read_def Object_prototype_def str_eval sample_defs
      mock_eval console_log_def)

text \<open>
  C7, amended. For a query in which the generator recognises none of \<^verbatim>\<open>paris\<close>, \<^verbatim>\<open>new york\<close>,
  \<^verbatim>\<open>kochi\<close> (it looks for them in the lower-cased query), the location name is the query as
  given, the center is the given coordinate pair, and there are four spots at the fixed
  offsets of the default branch from it. And with no credential, when nothing is cached
  under the key \<^verbatim>\<open>tokyo\<close>, \<^verbatim>\<open>fetchFoodSpots("Tokyo", lat, lng)\<close> returns a result named \<^verbatim>\<open>Tokyo\<close>
  with exactly 4 spots.
\<close>

theorem mockSpots_unrecognized:
  "(\<not> includes_str (toLowerCase e q) (str ''paris'') \<and>
    \<not> includes_str (toLowerCase e q) (str ''new york'') \<and>
    \<not> includes_str (toLowerCase e q) (str ''kochi'') \<longrightarrow>
      locationName (fst (mockSpots e q a b w)) = Str q \<and>
      center (fst (mockSpots e q a b w)) = \<lparr>lat = Num a, lng = Num b\<rparr> \<and>
      length (spots (fst (mockSpots e q a b w))) = 4 \<and>
      map coordinates (spots (fst (mockSpots e q a b w))) =
        [\<lparr>lat = Num (a + 0.002), lng = Num (b - 0.003)\<rparr>,
         \<lparr>lat = Num (a - 0.004), lng = Num (b - 0.012)\<rparr>,
         \<lparr>lat = Num (a + 0.005), lng = Num (b + 0.002)\<rparr>,
         \<lparr>lat = Num (a - 0.001), lng = Num (b + 0.008)\<rparr>]) \<and>
   ((API_KEY e = None \<or> API_KEY e = Some []) \<and> requestCache w (str ''tokyo'') = None \<longrightarrow>
      (\<exists>r w'. fetchFoodSpots e (str ''Tokyo'') a b w = (Result r, w') \<and>
          locationName r = Str (str ''Tokyo'') \<and> length (spots r) = 4))"
  using mockSpots_default_branch [of e q a b w] fetch_Tokyo_no_key [of e w a b] by blast

theorem mockSpots_unrecognized_witness:
  "\<not> includes_str (toLowerCase sample_env_no_key (str ''Lagos'')) (str ''paris'') \<and>
   \<not> includes_str (toLowerCase sample_env_no_key (str ''Lagos'')) (str ''new york'') \<and>
   \<not> includes_str (toLowerCase sample_env_no_key (str ''Lagos'')) (str ''kochi'') \<and>
   locationName (fst (mockSpots sample_env_no_key (str ''Lagos'') 6.5244 3.3792 initial_world)) = Str (str ''Lagos'') \<and>
   map coordinates (spots (fst (mockSpots sample_env_no_key (str ''Lagos'') 6.5244 3.3792 initial_world))) =
     [\<lparr>lat = Num 6.5264, lng = Num 3.3762\<rparr>, \<lparr>lat = Num 6.5204, lng = Num 3.3672\<rparr>,
      \<lparr>lat = Num 6.5294, lng = Num 3.3812\<rparr>, \<lparr>lat = Num 6.5234, lng = Num 3.3872\<rparr>] \<and>
   API_KEY sample_env_no_key = None \<and>
   requestCache initial_world (str ''tokyo'') = None \<and>
   (\<exists>r w'. fetchFoodSpots sample_env_no_key (str ''Tokyo'') 6.5244 3.3792 initial_world = (Result r, w') \<and>
       locationName r = Str (str ''Tokyo'') \<and> length (spots r) = 4)"
proof -
  have u: "\<not> includes_str (toLowerCase sample_env_no_key (str ''Lagos'')) (str ''paris'') \<and>
      \<not> includes_str (toLowerCase sample_env_no_key (str ''Lagos'')) (str ''new york'') \<and>
      \<not> includes_str (toLowerCase sample_env_no_key (str ''Lagos'')) (str ''kochi'')"
    by (simp add: str_eval)
  have k: "API_KEY sample_env_no_key = None" "requestCache initial_world (str ''tokyo'') = None"
    by (simp_all add: sample_defs)
  show ?thesis
    using u k mockSpots_unrecognized [of sample_env_no_key "str ''Lagos''" "6.5244" "3.3792" initial_world]
    by simp
qed

section \<open>Properties of the weekly refresh\<close>

lemma floor_delta:
  fixes r :: real
  assumes "0 \<le> r" "r < 1"
  shows "- 3 \<le> \<lfloor>r * 10 - 3\<rfloor> \<and> \<lfloor>r * 10 - 3\<rfloor> \<le> 6"
proof -
  have "- 3 \<le> r * 10 - 3" using assms by simp
  then have a: "- 3 \<le> \<lfloor>r * 10 - 3\<rfloor>" by (simp add: le_floor_iff)
  have "r * 10 - 3 < 7" using assms by simp
  then have "\<lfloor>r * 10 - 3\<rfloor> < 7" by (simp add: floor_less_iff)
  with a show ?thesis by simp
qed

lemma js_add_result_plain:
  "js_add e a b = Returned v \<Longrightarrow> \<not> coercion_throws v"
  by (auto simp: js_add_def split: if_splits prod.splits jsval.splits)

lemma Math_min_100: "Math_min e (Num 100) a = Returned (Num x) \<Longrightarrow> x \<le> 100"
  by (auto simp: Math_min_def split: if_splits jsval.splits)

lemma refresh_spot_throws:
  "coercion_throws (trendingScore s) \<Longrightarrow> \<exists>w'. refresh_spot e s w = (Threw TypeError, w')"
  by (simp add: refresh_spot_def Math_random_def js_add_def split_def)

lemma refresh_spot_returns:
  assumes "\<not> coercion_throws (trendingScore s)"
  shows "\<exists>s' w'. refresh_spot e s w = (Returned s', w')"
proof -
  obtain added where a: "js_add e (trendingScore s)
      (Num (of_int \<lfloor>random_values e (random_reads w) * 10 - 3\<rfloor>)) = Returned added"
    using assms by (simp add: js_add_def)
  then have "\<not> coercion_throws added" by (rule js_add_result_plain)
  then obtain score where "Math_min e (Num 100) added = Returned score"
    by (simp add: Math_min_def)
  with a show ?thesis
    by (simp add: refresh_spot_def Math_random_def Date_now_def split_def)
qed

lemma refresh_spot_Returned:
  assumes "refresh_spot e s w = (Returned s', w')"
  shows "\<exists>added score.
      js_add e (trendingScore s) (Num (of_int \<lfloor>random_values e (random_reads w) * 10 - 3\<rfloor>))
        = Returned added \<and>
      Math_min e (Num 100) added = Returned score \<and>
      s' = s\<lparr>trendingScore := score, lastUpdated := now w\<rparr>"
    and "random_reads w' = Suc (random_reads w)" and "now w \<le> now w'"
  using assms
  by (auto simp: refresh_spot_def Math_random_def Date_now_def split_def Let_def
      split: attempt.splits)

lemma refresh_spot_Threw:
  assumes "refresh_spot e s w = (Threw err, w')"
  shows "coercion_throws (trendingScore s)"
proof (rule ccontr)
  assume "\<not> coercion_throws (trendingScore s)"
  from refresh_spot_returns [OF this, of e w] assms show False by auto
qed

lemma refresh_spots_Threw:
  "refresh_spots e ss w = (Threw err, w') \<Longrightarrow> list_ex (\<lambda>s. coercion_throws (trendingScore s)) ss"
proof (induction ss arbitrary: w)
  case Nil
  then show ?case by simp
next
  case (Cons s ss)
  then show ?case
    by (auto split: prod.splits attempt.splits dest: refresh_spot_Threw)
qed

lemma refresh_spots_Returned:
  assumes "refresh_spots e ss w = (Returned ss', w')"
  shows "length ss' = length ss"
    and "\<not> list_ex (\<lambda>s. coercion_throws (trendingScore s)) ss"
    and "now w \<le> now w'"
    and "\<forall>i < length ss. \<exists>w1 w2. random_reads w1 = random_reads w + i \<and> now w \<le> now w1 \<and>
            now w1 \<le> now w' \<and> refresh_spot e (ss ! i) w1 = (Returned (ss' ! i), w2)"
  using assms
proof (induction ss arbitrary: w ss')
  case Nil
  {
    case 1 then show ?case by simp
  next
    case 2 then show ?case by simp
  next
    case 3 then show ?case by simp
  next
    case 4 then show ?case by simp
  }
next
  case (Cons s ss)
  {
    case 1
    then obtain s1 w1 ss1 where s: "refresh_spot e s w = (Returned s1, w1)"
      and r: "refresh_spots e ss w1 = (Returned ss1, w')" and e: "ss' = s1 # ss1"
      by (auto split: prod.splits attempt.splits)
    from Cons.IH(1) [OF r] e show ?case by simp
  next
    case 2
    then obtain s1 w1 ss1 where s: "refresh_spot e s w = (Returned s1, w1)"
      and r: "refresh_spots e ss w1 = (Returned ss1, w')" and e: "ss' = s1 # ss1"
      by (auto split: prod.splits attempt.splits)
    have "\<not> coercion_throws (trendingScore s)"
      using refresh_spot_throws [of s e w] s by auto
    with Cons.IH(2) [OF r] show ?case by simp
  next
    case 3
    then obtain s1 w1 ss1 where s: "refresh_spot e s w = (Returned s1, w1)"
      and r: "refresh_spots e ss w1 = (Returned ss1, w')" and e: "ss' = s1 # ss1"
      by (auto split: prod.splits attempt.splits)
    from Cons.IH(3) [OF r] refresh_spot_Returned(3) [OF s] show ?case by simp
  next
    case 4
    then obtain s1 w1 ss1 where s: "refresh_spot e s w = (Returned s1, w1)"
      and r: "refresh_spots e ss w1 = (Returned ss1, w')" and e: "ss' = s1 # ss1"
      by (auto split: prod.splits attempt.splits)
    note m = refresh_spot_Returned(3) [OF s] and rr = refresh_spot_Returned(2) [OF s]
    note tl = Cons.IH(4) [OF r] and fin = Cons.IH(3) [OF r]
    show ?case
    proof (intro allI impI)
      fix i assume i: "i < length (s # ss)"
      show "\<exists>w1 w2. random_reads w1 = random_reads w + i \<and> now w \<le> now w1 \<and>
            now w1 \<le> now w' \<and> refresh_spot e ((s # ss) ! i) w1 = (Returned (ss' ! i), w2)"
      proof (cases i)
        case 0
        with s e m fin show ?thesis
          by (intro exI [of _ w] exI [of _ w1]) simp
      next
        case (Suc j)
        with i have "j < length ss" by simp
        with tl obtain v1 v2 where "random_reads v1 = random_reads w1 + j" "now w1 \<le> now v1"
          "now v1 \<le> now w'" "refresh_spot e (ss ! j) v1 = (Returned (ss1 ! j), v2)"
          by blast
        with Suc e m rr show ?thesis
          by (intro exI [of _ v1] exI [of _ v2]) simp
      qed
    qed
  }
qed

lemma refresh_spots_returns:
  "\<not> list_ex (\<lambda>s. coercion_throws (trendingScore s)) ss \<Longrightarrow>
   \<exists>ss' w'. refresh_spots e ss w = (Returned ss', w')"
proof (cases "refresh_spots e ss w")
  case (Pair att w')
  assume n: "\<not> list_ex (\<lambda>s. coercion_throws (trendingScore s)) ss"
  show ?thesis
  proof (cases att)
    case (Threw err)
    with Pair n refresh_spots_Threw show ?thesis by blast
  next
    case (Returned ss')
    with Pair show ?thesis by simp
  qed
qed

lemma refresh_spot_frame:
  "refresh_spot e s w = (Returned s', w') \<Longrightarrow>
   s'\<lparr>trendingScore := Undefined, lastUpdated := 0\<rparr> = s\<lparr>trendingScore := Undefined, lastUpdated := 0\<rparr>"
  using refresh_spot_Returned(1) [of e s w s' w'] by auto

lemma refresh_spots_frame:
  "refresh_spots e ss w = (Returned ss', w') \<Longrightarrow>
   map (\<lambda>s. s\<lparr>trendingScore := Undefined, lastUpdated := 0\<rparr>) ss' =
   map (\<lambda>s. s\<lparr>trendingScore := Undefined, lastUpdated := 0\<rparr>) ss"
proof (induction ss arbitrary: w ss')
  case Nil
  then show ?case by simp
next
  case (Cons s ss)
  then obtain s1 w1 ss1 where s: "refresh_spot e s w = (Returned s1, w1)"
    and r: "refresh_spots e ss w1 = (Returned ss1, w')" and e: "ss' = s1 # ss1"
    by (auto split: prod.splits attempt.splits)
  from Cons.IH [OF r] refresh_spot_frame [OF s] e show ?case by simp
qed

lemma refresh_spot_service:
  "refresh_spot e s (with_service c n w) =
   (fst (refresh_spot e s w), with_service c n (snd (refresh_spot e s w)))"
  by (simp add: refresh_spot_def Math_random_def Date_now_def split_def Let_def with_service_def
      split: attempt.splits)

lemma refresh_spots_service:
  "refresh_spots e ss (with_service c n w) =
   (fst (refresh_spots e ss w), with_service c n (snd (refresh_spots e ss w)))"
  by (induction ss arbitrary: w)
     (simp_all add: refresh_spot_service split: prod.splits attempt.splits)

lemma addLog_service:
  "addLog e m a (with_service c n w) = with_service c n (addLog e m a w)"
  by (simp add: addLog_def Math_random_def Date_now_def split_def with_service_def)

lemma with_service_fields:
  "held_spots (with_service c n w) = held_spots w"
  "(with_service c n w)\<lparr>activeAgent := g\<rparr> = with_service c n (w\<lparr>activeAgent := g\<rparr>)"
  "(with_service c n w)\<lparr>held_spots := ss\<rparr> = with_service c n (w\<lparr>held_spots := ss\<rparr>)"
  "elapse d (with_service c n w) = with_service c n (elapse d w)"
  "requestCache (with_service c n w) = c"
  "upstream_calls (with_service c n w) = n"
  by (simp_all add: with_service_def elapse_def)

lemma refresh_callback_service:
  "refresh_callback e ss (with_service c n w) = with_service c n (refresh_callback e ss w)"
  by (simp add: refresh_callback_def refresh_spots_service addLog_service with_service_fields
      Let_def split: prod.splits attempt.splits)

lemma weeklyRefresh_service:
  "weeklyRefresh e (with_service c n w) = with_service c n (weeklyRefresh e w)"
  by (simp add: weeklyRefresh_def handleWeeklyRefresh_def Let_def
      addLog_service refresh_callback_service with_service_fields)

text \<open>The state in which the timer callback of a refresh started in \<open>w\<close> runs.\<close>

lemma addLog_fields:
  "held_spots (addLog e m a w) = held_spots w"
  "random_reads (addLog e m a w) = Suc (random_reads w)"
  "now w \<le> now (addLog e m a w)"
  by (simp_all add: addLog_def Math_random_def Date_now_def split_def)

lemma refresh_spot_held: "held_spots (snd (refresh_spot e s w)) = held_spots w"
  by (simp add: refresh_spot_def Math_random_def Date_now_def split_def Let_def
      split: attempt.splits)

lemma refresh_spots_held: "held_spots (snd (refresh_spots e ss w)) = held_spots w"
proof (induction ss arbitrary: w)
  case Nil
  show ?case by simp
next
  case (Cons s ss)
  show ?case
    using Cons.IH [of "snd (refresh_spot e s w)"] refresh_spot_held [of e s w]
    by (auto split: prod.splits attempt.splits)
qed

lemma weeklyRefresh_held:
  "held_spots (weeklyRefresh e w) =
     (if held_spots w = [] then []
      else (case fst (refresh_spots e (held_spots w)
                        (elapse 2500 (addLog e (str ''Executing Weekly Analytics Refresh...'') REFRESH
                                       (w\<lparr>activeAgent := REFRESH\<rparr>)))) of
              Threw err \<Rightarrow> held_spots w
            | Returned ss \<Rightarrow> ss))"
proof -
  let ?w2 = "elapse 2500 (addLog e (str ''Executing Weekly Analytics Refresh...'') REFRESH
                                       (w\<lparr>activeAgent := REFRESH\<rparr>))"
  have h2: "held_spots ?w2 = held_spots w"
    by (simp add: elapse_def addLog_fields)
  have keep: "held_spots (snd (refresh_spots e (held_spots w) ?w2)) = held_spots w"
    using refresh_spots_held [of e "held_spots w" ?w2] h2 by simp
  show ?thesis
  proof (cases "refresh_spots e (held_spots w) ?w2")
    case (Pair att w1)
    with keep have k: "held_spots w1 = held_spots w" by simp
    show ?thesis
      using Pair k
      by (cases att)
         (simp_all add: weeklyRefresh_def handleWeeklyRefresh_def refresh_callback_def Let_def
           addLog_fields)
  qed
qed

lemma weeklyRefresh_unchanged:
  "requestCache (weeklyRefresh e w) = requestCache w \<and>
   upstream_calls (weeklyRefresh e w) = upstream_calls w"
proof -
  have "with_service (requestCache w) (upstream_calls w) w = w"
    by (simp add: with_service_def)
  then have "weeklyRefresh e w = with_service (requestCache w) (upstream_calls w) (weeklyRefresh e w)"
    using weeklyRefresh_service [of e "requestCache w" "upstream_calls w" w] by simp
  then have "requestCache (weeklyRefresh e w) =
      requestCache (with_service (requestCache w) (upstream_calls w) (weeklyRefresh e w))"
    and "upstream_calls (weeklyRefresh e w) =
      upstream_calls (with_service (requestCache w) (upstream_calls w) (weeklyRefresh e w))"
    by simp_all
  then show ?thesis by (simp add: with_service_fields)
qed

lemma weeklyRefresh_held_frame:
  "map (\<lambda>s. s\<lparr>trendingScore := Undefined, lastUpdated := 0\<rparr>) (held_spots (weeklyRefresh e w)) =
   map (\<lambda>s. s\<lparr>trendingScore := Undefined, lastUpdated := 0\<rparr>) (held_spots w)"
proof -
  let ?w2 = "elapse 2500 (addLog e (str ''Executing Weekly Analytics Refresh...'') REFRESH
                                       (w\<lparr>activeAgent := REFRESH\<rparr>))"
  show ?thesis
  proof (cases "refresh_spots e (held_spots w) ?w2")
    case (Pair att w1)
    show ?thesis
    proof (cases att)
      case (Threw err)
      with Pair show ?thesis by (simp add: weeklyRefresh_held)
    next
      case (Returned ss)
      with Pair refresh_spots_frame [of e "held_spots w" ?w2 ss w1] show ?thesis
        by (simp add: weeklyRefresh_held)
    qed
  qed
qed

text \<open>
  C9. The refresh keeps every field of every held spot but \<^verbatim>\<open>trendingScore\<close> and
  \<^verbatim>\<open>lastUpdated\<close> (the lists agree, spot by spot, once these two fields are blanked), it leaves
  the cache and the count of backend requests as they were, and its outcome does not depend
  on them: run with any other cache and count, it yields the same world with that cache and
  count.
\<close>

theorem weeklyRefresh_frame:
  "map (\<lambda>s. s\<lparr>trendingScore := Undefined, lastUpdated := 0\<rparr>) (held_spots (weeklyRefresh e w)) =
   map (\<lambda>s. s\<lparr>trendingScore := Undefined, lastUpdated := 0\<rparr>) (held_spots w) \<and>
   requestCache (weeklyRefresh e w) = requestCache w \<and>
   upstream_calls (weeklyRefresh e w) = upstream_calls w \<and>
   weeklyRefresh e (with_service c n w) = with_service c n (weeklyRefresh e w)"
  using weeklyRefresh_unchanged [of e w] weeklyRefresh_service [of e c n w]
    weeklyRefresh_held_frame [of e w]
  by simp

lemma weeklyRefresh_now:
  assumes "held_spots w \<noteq> []"
    and "refresh_spots e (held_spots w)
           (elapse 2500 (addLog e (str ''Executing Weekly Analytics Refresh...'') REFRESH
                          (w\<lparr>activeAgent := REFRESH\<rparr>))) = (Returned ss, w1)"
  shows "now w1 \<le> now (weeklyRefresh e w)"
  using assms addLog_fields(3) [of "w1\<lparr>held_spots := ss\<rparr>" e "str ''Refresh complete. Trends updated.''" IDLE]
  by (simp add: weeklyRefresh_def handleWeeklyRefresh_def refresh_callback_def Let_def)

lemma refresh_numeric:
  assumes "js_add e (Num v) (Num d) = Returned added" and "Math_min e (Num 100) added = Returned score"
  shows "score = Num (min 100 (v + d))"
  using assms by (auto simp: js_add_def Math_min_def)

lemmas refresh_eval =
  weeklyRefresh_def handleWeeklyRefresh_def refresh_callback_def Let_def split_def addLog_def
  Math_random_def Date_now_def refresh_spot_def elapse_def Math_min_def js_add_def
  sample_held_def stuck_held_def future_held_def mockSpots_def mock_spot_defs str_eval sample_defs

text \<open>
  C3. The claim: after the refresh each \<^verbatim>\<open>trendingScore\<close> is within 3 of its prior value and
  each \<^verbatim>\<open>lastUpdated\<close> is strictly greater than before. The delta is
  \<^verbatim>\<open>Math.floor(Math.random() * 10 - 3)\<close>, which reaches 6: with the random value 0.95 a score of
  88 becomes 94. When a held score is an object with an own property \<^verbatim>\<open>toString\<close>, the sum
  throws a TypeError in the timer callback and the list stays as it was, stamps included.
  And a spot stamped later than the time of the refresh gets an earlier stamp.
\<close>

theorem weeklyRefresh_delta_counterexample:
  "trendingScore (held_spots sample_held ! 1) = Num 88 \<and>
   trendingScore (held_spots (weeklyRefresh sample_env sample_held) ! 1) = Num 94 \<and>
   \<not> \<bar>94 - 88\<bar> \<le> (3::real) \<and>
   lastUpdated (held_spots stuck_held ! 0) = 0 \<and>
   lastUpdated (held_spots (weeklyRefresh sample_env stuck_held) ! 0) = 0 \<and>
   lastUpdated (held_spots future_held ! 0) = 10000 \<and>
   lastUpdated (held_spots (weeklyRefresh sample_env future_held) ! 0) = 2501"
  by (simp add: refresh_eval)

text \<open>
  C3, amended. With random values in [0, 1), the refresh of N held spots yields N spots.
  When the score of a held spot cannot be converted to a primitive, the callback throws and
  the held list stays as it was. Otherwise the score of the i-th spot becomes
  \<^verbatim>\<open>Math.min(100, score + d)\<close> for the integer d = \<^verbatim>\<open>Math.floor(Math.random() * 10 - 3)\<close> on the random
  value read for it, which lies between -3 and 6: it is never a number above 100, and a
  numeric score v becomes the minimum of 100 and v + d. When no held spot is stamped later
  than the current time, each \<^verbatim>\<open>lastUpdated\<close> is strictly greater than before, and again no
  held spot is stamped later than the current time. The service returns only such lists
  (\<open>fetchFoodSpots_stamps\<close> below).
\<close>

theorem weeklyRefresh_bounds:
  assumes rnd: "\<forall>k. 0 \<le> random_values e k \<and> random_values e k < 1"
  shows "length (held_spots (weeklyRefresh e w)) = length (held_spots w) \<and>
     (list_ex (\<lambda>s. coercion_throws (trendingScore s)) (held_spots w) \<longrightarrow>
        held_spots (weeklyRefresh e w) = held_spots w) \<and>
     (\<not> list_ex (\<lambda>s. coercion_throws (trendingScore s)) (held_spots w) \<longrightarrow>
        (\<forall>i < length (held_spots w).
           - 3 \<le> refresh_delta e w i \<and> refresh_delta e w i \<le> 6 \<and>
           (\<exists>added.
              js_add e (trendingScore (held_spots w ! i)) (Num (of_int (refresh_delta e w i)))
                = Returned added \<and>
              Math_min e (Num 100) added
                = Returned (trendingScore (held_spots (weeklyRefresh e w) ! i))) \<and>
           (\<forall>x. trendingScore (held_spots (weeklyRefresh e w) ! i) = Num x \<longrightarrow> x \<le> 100) \<and>
           (\<forall>v. trendingScore (held_spots w ! i) = Num v \<longrightarrow>
              trendingScore (held_spots (weeklyRefresh e w) ! i)
                = Num (min 100 (v + of_int (refresh_delta e w i)))) \<and>
           ((\<forall>s \<in> set (held_spots w). lastUpdated s \<le> now w) \<longrightarrow>
              lastUpdated (held_spots w ! i) < lastUpdated (held_spots (weeklyRefresh e w) ! i))) \<and>
        ((\<forall>s \<in> set (held_spots w). lastUpdated s \<le> now w) \<longrightarrow>
           (\<forall>s \<in> set (held_spots (weeklyRefresh e w)). lastUpdated s \<le> now (weeklyRefresh e w))))"
proof (cases "held_spots w = []")
  case True
  then show ?thesis by (simp add: weeklyRefresh_held)
next
  case False
  let ?T = "\<lambda>s. coercion_throws (trendingScore s)"
  let ?w2 = "elapse 2500 (addLog e (str ''Executing Weekly Analytics Refresh...'') REFRESH
                           (w\<lparr>activeAgent := REFRESH\<rparr>))"
  have later: "now w + 2500 \<le> now ?w2"
    using addLog_fields(3) [of "w\<lparr>activeAgent := REFRESH\<rparr>" e] by (simp add: elapse_def)
  have reads: "random_reads ?w2 = Suc (random_reads w)"
    by (simp add: elapse_def addLog_fields)
  show ?thesis
  proof (cases "list_ex ?T (held_spots w)")
    case True
    have "\<exists>err. fst (refresh_spots e (held_spots w) ?w2) = Threw err"
    proof (cases "refresh_spots e (held_spots w) ?w2")
      case (Pair att w1)
      show ?thesis
      proof (cases att)
        case (Threw err)
        with Pair show ?thesis by simp
      next
        case (Returned ss)
        with Pair refresh_spots_Returned(2) True show ?thesis by blast
      qed
    qed
    then have "held_spots (weeklyRefresh e w) = held_spots w"
      using False by (auto simp: weeklyRefresh_held)
    with True show ?thesis by simp
  next
    case nothrow: False
    then obtain ss w1 where r: "refresh_spots e (held_spots w) ?w2 = (Returned ss, w1)"
      using refresh_spots_returns by blast
    have h: "held_spots (weeklyRefresh e w) = ss"
      using False r by (simp add: weeklyRefresh_held)
    have len: "length ss = length (held_spots w)"
      by (rule refresh_spots_Returned(1) [OF r])
    have fin: "now w1 \<le> now (weeklyRefresh e w)"
      by (rule weeklyRefresh_now [OF False r])
    have each: "\<exists>t added.
        now ?w2 \<le> t \<and> t \<le> now w1 \<and>
        js_add e (trendingScore (held_spots w ! i)) (Num (of_int (refresh_delta e w i))) = Returned added \<and>
        Math_min e (Num 100) added = Returned (trendingScore (ss ! i)) \<and>
        lastUpdated (ss ! i) = t"
      if i: "i < length (held_spots w)" for i
    proof -
      from refresh_spots_Returned(4) [OF r] i obtain v1 v2 where
        rr: "random_reads v1 = random_reads ?w2 + i" and n1: "now ?w2 \<le> now v1" and n2: "now v1 \<le> now w1"
        and s: "refresh_spot e (held_spots w ! i) v1 = (Returned (ss ! i), v2)"
        by blast
      have d: "\<lfloor>random_values e (random_reads v1) * 10 - 3\<rfloor> = refresh_delta e w i"
        by (simp add: rr reads refresh_delta_def)
      from refresh_spot_Returned(1) [OF s] obtain added score where
        "js_add e (trendingScore (held_spots w ! i))
           (Num (of_int \<lfloor>random_values e (random_reads v1) * 10 - 3\<rfloor>)) = Returned added"
        and "Math_min e (Num 100) added = Returned score"
        and "ss ! i = (held_spots w ! i)\<lparr>trendingScore := score, lastUpdated := now v1\<rparr>"
        by blast
      with d n1 n2 show ?thesis by auto
    qed
    have range: "- 3 \<le> refresh_delta e w i \<and> refresh_delta e w i \<le> 6" for i
      unfolding refresh_delta_def using rnd by (intro floor_delta) auto
    have idx: "- 3 \<le> refresh_delta e w i \<and> refresh_delta e w i \<le> 6 \<and>
           (\<exists>added.
              js_add e (trendingScore (held_spots w ! i)) (Num (of_int (refresh_delta e w i)))
                = Returned added \<and>
              Math_min e (Num 100) added = Returned (trendingScore (ss ! i))) \<and>
           (\<forall>x. trendingScore (ss ! i) = Num x \<longrightarrow> x \<le> 100) \<and>
           (\<forall>v. trendingScore (held_spots w ! i) = Num v \<longrightarrow>
              trendingScore (ss ! i) = Num (min 100 (v + of_int (refresh_delta e w i)))) \<and>
           ((\<forall>s \<in> set (held_spots w). lastUpdated s \<le> now w) \<longrightarrow>
              lastUpdated (held_spots w ! i) < lastUpdated (ss ! i))"
      if i: "i < length (held_spots w)" for i
    proof -
      from each [OF i] obtain t added where n1: "now ?w2 \<le> t"
        and a: "js_add e (trendingScore (held_spots w ! i)) (Num (of_int (refresh_delta e w i))) = Returned added"
        and m: "Math_min e (Num 100) added = Returned (trendingScore (ss ! i))"
        and l: "lastUpdated (ss ! i) = t"
        by blast
      have le: "x \<le> 100" if "trendingScore (ss ! i) = Num x" for x
        using m that Math_min_100 by metis
      have num: "trendingScore (ss ! i) = Num (min 100 (v + of_int (refresh_delta e w i)))"
        if "trendingScore (held_spots w ! i) = Num v" for v
        using refresh_numeric [of e v "of_int (refresh_delta e w i)" added "trendingScore (ss ! i)"] a m that
        by simp
      have st: "lastUpdated (held_spots w ! i) < lastUpdated (ss ! i)"
        if "\<forall>s \<in> set (held_spots w). lastUpdated s \<le> now w"
      proof -
        have "lastUpdated (held_spots w ! i) \<le> now w" using that i by simp
        with later n1 l show ?thesis by simp
      qed
      from range a m le num st show ?thesis by blast
    qed
    have past: "\<forall>s \<in> set ss. lastUpdated s \<le> now (weeklyRefresh e w)"
    proof
      fix s assume "s \<in> set ss"
      then obtain i where i: "i < length ss" and s: "s = ss ! i"
        by (auto simp: in_set_conv_nth)
      from each [of i] i len obtain t where "t \<le> now w1" "lastUpdated (ss ! i) = t"
        by auto
      with fin s show "lastUpdated s \<le> now (weeklyRefresh e w)" by simp
    qed
    from nothrow len idx past show ?thesis
      unfolding h by simp
  qed
qed

theorem weeklyRefresh_bounds_witness:
  "(\<forall>k. 0 \<le> random_values sample_env k \<and> random_values sample_env k < 1) \<and>
   \<not> list_ex (\<lambda>s. coercion_throws (trendingScore s)) (held_spots sample_held) \<and>
   list_all (\<lambda>s. lastUpdated s \<le> now sample_held) (held_spots sample_held) \<and>
   length (held_spots (weeklyRefresh sample_env sample_held)) = 4 \<and>
   refresh_delta sample_env sample_held 1 = 6 \<and>
   trendingScore (held_spots (weeklyRefresh sample_env sample_held) ! 1) = Num 94 \<and>
   lastUpdated (held_spots sample_held ! 1)
     < lastUpdated (held_spots (weeklyRefresh sample_env sample_held) ! 1) \<and>
   list_ex (\<lambda>s. coercion_throws (trendingScore s)) (held_spots stuck_held) \<and>
   held_spots (weeklyRefresh sample_env stuck_held) = held_spots stuck_held"
proof -
  have r: "\<forall>k. 0 \<le> random_values sample_env k \<and> random_values sample_env k < 1"
    by (simp add: sample_env_def)
  have t: "\<not> list_ex (\<lambda>s. coercion_throws (trendingScore s)) (held_spots sample_held)"
    by (simp add: refresh_eval)
  have p: "list_all (\<lambda>s. lastUpdated s \<le> now sample_held) (held_spots sample_held)"
    by (simp add: refresh_eval)
  then have p': "\<forall>s \<in> set (held_spots sample_held). lastUpdated s \<le> now sample_held"
    by (simp add: list_all_iff)
  have n: "length (held_spots sample_held) = 4"
    by (simp add: refresh_eval)
  have v: "trendingScore (held_spots sample_held ! 1) = Num 88"
    by (simp add: refresh_eval)
  have d: "refresh_delta sample_env sample_held 1 = 6"
    by (simp add: refresh_delta_def sample_env_def)
  have x: "list_ex (\<lambda>s. coercion_throws (trendingScore s)) (held_spots stuck_held)"
    by (simp add: stuck_held_def initial_world_def mock_spot_1_def)
  note A = weeklyRefresh_bounds [OF r, of sample_held]
  from A have len: "length (held_spots (weeklyRefresh sample_env sample_held)) = 4"
    using n by simp
  from A t n have one: "(\<forall>v. trendingScore (held_spots sample_held ! 1) = Num v \<longrightarrow>
        trendingScore (held_spots (weeklyRefresh sample_env sample_held) ! 1)
          = Num (min 100 (v + of_int (refresh_delta sample_env sample_held 1)))) \<and>
      ((\<forall>s \<in> set (held_spots sample_held). lastUpdated s \<le> now sample_held) \<longrightarrow>
        lastUpdated (held_spots sample_held ! 1)
          < lastUpdated (held_spots (weeklyRefresh sample_env sample_held) ! 1))"
    by simp
  with v d p' have sc: "trendingScore (held_spots (weeklyRefresh sample_env sample_held) ! 1) = Num 94"
    and st: "lastUpdated (held_spots sample_held ! 1)
          < lastUpdated (held_spots (weeklyRefresh sample_env sample_held) ! 1)"
    by simp_all
  from weeklyRefresh_bounds [OF r, of stuck_held] x
  have stuck: "held_spots (weeklyRefresh sample_env stuck_held) = held_spots stuck_held"
    by simp
  from r t p len d sc st x stuck show ?thesis by blast
qed

lemma refresh_spot_mono: "now w \<le> now (snd (refresh_spot e s w))"
  by (auto simp: refresh_spot_def Math_random_def Date_now_def split_def Let_def
      split: attempt.splits)

lemma refresh_spots_mono: "now w \<le> now (snd (refresh_spots e ss w))"
proof (induction ss arbitrary: w)
  case Nil
  show ?case by simp
next
  case (Cons s ss)
  show ?case
    using Cons.IH [of "snd (refresh_spot e s w)"] refresh_spot_mono [of w e s]
    by (auto split: prod.splits attempt.splits)
qed

lemma weeklyRefresh_mono: "now w \<le> now (weeklyRefresh e w)"
proof (cases "held_spots w = []")
  case True
  then show ?thesis
    by (simp add: weeklyRefresh_def handleWeeklyRefresh_def)
next
  case False
  let ?w2 = "elapse 2500 (addLog e (str ''Executing Weekly Analytics Refresh...'') REFRESH
                           (w\<lparr>activeAgent := REFRESH\<rparr>))"
  have a: "now w \<le> now ?w2"
    using addLog_fields(3) [of "w\<lparr>activeAgent := REFRESH\<rparr>" e
        "str ''Executing Weekly Analytics Refresh...''" REFRESH]
    by (simp add: elapse_def)
  have b: "now ?w2 \<le> now (snd (refresh_spots e (held_spots w) ?w2))"
    by (rule refresh_spots_mono)
  have c: "now (snd (refresh_spots e (held_spots w) ?w2)) \<le> now (weeklyRefresh e w)"
  proof (cases "refresh_spots e (held_spots w) ?w2")
    case (Pair att w1)
    show ?thesis
    proof (cases att)
      case (Threw err)
      with Pair False show ?thesis
        by (simp add: weeklyRefresh_def handleWeeklyRefresh_def refresh_callback_def Let_def)
    next
      case (Returned ss)
      with Pair weeklyRefresh_now [OF False, of e ss w1] show ?thesis by simp
    qed
  qed
  from a b c show ?thesis by simp
qed

text \<open>
  The refresh leaves the cache as it is and time only moves forward, so it keeps the cached
  stamps in the past.
\<close>

lemma weeklyRefresh_cache_stamps:
  assumes "\<forall>k r. requestCache w k = Some r \<longrightarrow> (\<forall>s \<in> set (spots r). lastUpdated s \<le> now w)"
  shows "\<forall>k r. requestCache (weeklyRefresh e w) k = Some r \<longrightarrow>
           (\<forall>s \<in> set (spots r). lastUpdated s \<le> now (weeklyRefresh e w))"
  using assms weeklyRefresh_mono [of w e] weeklyRefresh_unchanged [of e w]
  by fastforce

section \<open>Properties of the upstream path\<close>

subsection \<open>Decimal rendering and the synthesized ids\<close>

lemma digit_not_dash: "digit d \<noteq> 45"
  by (simp add: digit_def)

lemma digit_inj: "a < 10 \<Longrightarrow> b < 10 \<Longrightarrow> digit a = digit b \<Longrightarrow> a = b"
  by (simp add: digit_def)

lemma show_nat_not_Nil: "show_nat n \<noteq> []"
  by (subst show_nat.simps) simp

lemma show_nat_no_dash: "45 \<notin> set (show_nat n)"
proof (induction n rule: show_nat.induct)
  case (1 n)
  show ?case
  proof (cases "n < 10")
    case True
    then show ?thesis
      using digit_not_dash [of n] by (subst show_nat.simps) auto
  next
    case False
    then show ?thesis
      using 1 digit_not_dash [of "n mod 10"] by (subst show_nat.simps) auto
  qed
qed

lemma show_nat_inj: "show_nat m = show_nat n \<Longrightarrow> m = n"
proof (induction m arbitrary: n rule: show_nat.induct)
  case (1 m)
  show ?case
  proof (cases "m < 10")
    case m: True
    show ?thesis
    proof (cases "n < 10")
      case True
      with m "1.prems" show ?thesis
        by (simp add: show_nat.simps [of m] show_nat.simps [of n] digit_inj)
    next
      case False
      with m "1.prems" show_nat_not_Nil [of "n div 10"] show ?thesis
        by (simp add: show_nat.simps [of m] show_nat.simps [of n])
    qed
  next
    case m: False
    show ?thesis
    proof (cases "n < 10")
      case True
      with m "1.prems" show_nat_not_Nil [of "m div 10"] show ?thesis
        by (simp add: show_nat.simps [of m] show_nat.simps [of n])
    next
      case False
      with m "1.prems" have eq: "show_nat (m div 10) = show_nat (n div 10)"
        and d: "digit (m mod 10) = digit (n mod 10)"
        by (simp_all add: show_nat.simps [of m] show_nat.simps [of n])
      have "m div 10 = n div 10"
        using "1.IH" [OF m eq] .
      moreover have "m mod 10 = n mod 10"
        using d digit_inj [of "m mod 10" "n mod 10"] by simp
      ultimately show ?thesis
        by (metis div_mult_mod_eq)
    qed
  qed
qed

lemma split_at_dash:
  assumes "x \<notin> set a" "x \<notin> set a'" "a @ x # b = a' @ x # b'"
  shows "a = a' \<and> b = b'"
proof -
  have "takeWhile (\<lambda>c. c \<noteq> x) a = a" "takeWhile (\<lambda>c. c \<noteq> x) a' = a'"
    using assms(1,2) by (auto simp: takeWhile_eq_all_conv)
  then have "takeWhile (\<lambda>c. c \<noteq> x) (a @ x # b) = a" "takeWhile (\<lambda>c. c \<noteq> x) (a' @ x # b') = a'"
    by (simp_all add: takeWhile_tail)
  with assms(3) have "a = a'" by simp
  with assms(3) show ?thesis by simp
qed

lemma gemini_id_inj:
  assumes "str ''gemini-'' @ show_nat t @ str ''-'' @ show_nat i =
           str ''gemini-'' @ show_nat t' @ str ''-'' @ show_nat i'"
  shows "i = i'"
proof -
  from assms have "show_nat t @ 45 # show_nat i = show_nat t' @ 45 # show_nat i'"
    by (simp add: str_def)
  then have "show_nat i = show_nat i'"
    using split_at_dash [OF show_nat_no_dash show_nat_no_dash] by blast
  then show ?thesis by (rule show_nat_inj)
qed

subsection \<open>The map over the spot records\<close>

lemma coordinate_cases:
  "coordinate e given region w =
     (if truthy given then (Returned given, w)
      else (js_add e region (Num (random_values e (random_reads w) * 0.02 - 0.01)),
            w\<lparr>random_reads := Suc (random_reads w)\<rparr>))"
  by (simp add: coordinate_def Math_random_def)

lemma coordinate_Returned_iff:
  "(\<exists>v w'. coordinate e given region w = (Returned v, w')) \<longleftrightarrow>
   (truthy given \<or> \<not> coercion_throws region)"
  by (auto simp: coordinate_cases js_add_def)

lemma viral_posts_Returned_iff:
  "(\<exists>v. viral_posts e item i = Returned v) \<longleftrightarrow>
   (truthy (getp item (str ''viralPosts'')) \<or> \<not> coercion_throws (getp item (str ''name'')))"
  by (auto simp: viral_posts_def ToString_def)

lemmas process_spot_unfold =
  process_spot_def coordinate_cases Math_random_def Date_now_def Let_def split_def

lemma process_spot_nullish:
  "nullish item \<Longrightarrow> fst (process_spot e rl rg item i w) = Threw TypeError"
  by (simp add: process_spot_def Date_now_def split_def)

lemma process_spot_total:
  assumes "spot_ok rl rg item"
  shows "\<exists>s w'. process_spot e rl rg item i w = (Returned s, w')"
proof -
  from assms have nn: "\<not> nullish item"
    and la: "truthy (getp item (str ''latitude'')) \<or> \<not> coercion_throws rl"
    and lo: "truthy (getp item (str ''longitude'')) \<or> \<not> coercion_throws rg"
    and vp: "truthy (getp item (str ''viralPosts'')) \<or> \<not> coercion_throws (getp item (str ''name''))"
    by (simp_all add: spot_ok_def)
  from vp obtain posts where v: "viral_posts e item i = Returned posts"
    using viral_posts_Returned_iff by blast
  show ?thesis
    using nn la lo v by (auto simp: process_spot_unfold js_add_def)
qed

lemma process_spot_Threw:
  assumes "\<not> spot_ok rl rg item"
  shows "\<exists>err w'. process_spot e rl rg item i w = (Threw err, w')"
proof (cases "nullish item")
  case True
  then show ?thesis by (simp add: process_spot_unfold)
next
  case nn: False
  show ?thesis
  proof (cases "truthy (getp item (str ''latitude'')) \<or> \<not> coercion_throws rl")
    case False
    with nn show ?thesis by (simp add: process_spot_unfold js_add_def)
  next
    case la: True
    show ?thesis
    proof (cases "truthy (getp item (str ''longitude'')) \<or> \<not> coercion_throws rg")
      case False
      with nn la show ?thesis by (auto simp: process_spot_unfold js_add_def)
    next
      case lo: True
      with assms nn la have "\<not> (truthy (getp item (str ''viralPosts'')) \<or>
          \<not> coercion_throws (getp item (str ''name'')))"
        by (simp add: spot_ok_def)
      then have "\<exists>err. viral_posts e item i = Threw err"
        by (simp add: viral_posts_def ToString_def)
      then obtain err where "viral_posts e item i = Threw err" by blast
      with nn la lo show ?thesis by (auto simp: process_spot_unfold js_add_def)
    qed
  qed
qed

lemma process_spot_ok:
  assumes "process_spot e rl rg item i w = (Returned s, w')"
  shows "spot_ok rl rg item"
proof (rule ccontr)
  assume "\<not> spot_ok rl rg item"
  from process_spot_Threw [OF this, of e i w] assms show False by auto
qed

lemma process_spot_id:
  "process_spot e rl rg item i w = (Returned s, w') \<Longrightarrow>
   spot_id s = str ''gemini-'' @ show_nat (now w) @ str ''-'' @ show_nat i"
  by (auto simp: process_spot_unfold split: if_splits attempt.splits)

lemma process_spot_copied:
  assumes "process_spot e rl rg item i w = (Returned s, w')"
  shows "name s = getp item (str ''name'')" "cuisine s = getp item (str ''cuisine'')"
    "address s = getp item (str ''address'')" "priceRange s = getp item (str ''priceRange'')"
    "sentimentScore s = getp item (str ''sentimentScore'')"
    "trendingScore s = getp item (str ''trendingScore'')"
    "popularityVelocity s = getp item (str ''popularityVelocity'')"
    "bestDishes s = getp item (str ''bestDishes'')"
    "description s = getp item (str ''description'')"
    "aiConfidence s = getp item (str ''aiConfidence'')"
  using assms
  by (auto simp: process_spot_unfold split: if_splits attempt.splits)

lemma process_spot_defaults:
  assumes "process_spot e rl rg item i w = (Returned s, w')"
  shows "summary (influencerData s) =
           or_else (getp item (str ''influencerSummary'')) (Str (str ''Trending on social feeds''))"
    "topMentionedBy (influencerData s) = or_else (getp item (str ''topInfluencers'')) (Arr [])"
    "viral_posts e item i = Returned (viralPosts s)"
  using assms
  by (auto simp: process_spot_unfold split: if_splits attempt.splits)



lemma process_spot_world:
  assumes "process_spot e rl rg item i w = (Returned s, w')"
  shows "random_reads w' = random_reads w + item_reads item"
    and "now w \<le> now w'" and "lastUpdated s \<le> now w'" and "now w \<le> lastUpdated s"
  using assms
  by (auto simp: process_spot_unfold item_reads_def split: if_splits attempt.splits)

lemma process_spot_now: "now w \<le> now (snd (process_spot e rl rg item i w))"
  by (auto simp: process_spot_unfold split: if_splits attempt.splits)

lemma process_spots_rel:
  "process_spots e rl rg i items w = (Returned ss, w') \<Longrightarrow>
   length ss = length items \<and>
   (\<forall>j < length items. \<exists>w1 w2.
       process_spot e rl rg (items ! j) (i + j) w1 = (Returned (ss ! j), w2) \<and>
       random_reads w1 = random_reads w + reads_before items j \<and>
       now w \<le> now w1 \<and> now w2 \<le> now w')
   \<and> now w \<le> now w'"
proof (induction items arbitrary: i w ss)
  case Nil
  then show ?case by simp
next
  case (Cons item items)
  from Cons.prems obtain s w1 ss1 where
    s: "process_spot e rl rg item i w = (Returned s, w1)"
    and r: "process_spots e rl rg (Suc i) items w1 = (Returned ss1, w')"
    and ss: "ss = s # ss1"
    by (auto split: prod.splits attempt.splits)
  note ih = Cons.IH [OF r]
  note sw = process_spot_world [OF s]
  from ih have len: "length ss1 = length items" and mono: "now w1 \<le> now w'"
    by simp_all
  have "\<exists>wa wb. process_spot e rl rg ((item # items) ! j) (i + j) wa = (Returned (ss ! j), wb) \<and>
       random_reads wa = random_reads w + reads_before (item # items) j \<and>
       now w \<le> now wa \<and> now wb \<le> now w'"
    if j: "j < length (item # items)" for j
  proof (cases j)
    case 0
    with s ss mono show ?thesis
      by (auto simp: reads_before_def)
  next
    case (Suc k)
    with j have k: "k < length items" by simp
    with ih obtain wa wb where
      "process_spot e rl rg (items ! k) (Suc i + k) wa = (Returned (ss1 ! k), wb)"
      "random_reads wa = random_reads w1 + reads_before items k"
      "now w1 \<le> now wa" "now wb \<le> now w'"
      by blast
    with Suc ss sw have
      "process_spot e rl rg ((item # items) ! j) (i + j) wa = (Returned (ss ! j), wb) \<and>
       random_reads wa = random_reads w + reads_before (item # items) j \<and>
       now w \<le> now wa \<and> now wb \<le> now w'"
      by (simp add: reads_before_def)
    then show ?thesis by blast
  qed
  with len ss mono sw show ?case by simp
qed

lemma process_spots_total:
  "list_all (spot_ok rl rg) items \<Longrightarrow>
   \<exists>ss w'. process_spots e rl rg i items w = (Returned ss, w')"
proof (induction items arbitrary: i w)
  case Nil
  show ?case by simp
next
  case (Cons item items)
  from Cons.prems obtain s w1 where s: "process_spot e rl rg item i w = (Returned s, w1)"
    using process_spot_total [of rl rg item e i w] by auto
  from Cons.prems obtain ss w2 where "process_spots e rl rg (Suc i) items w1 = (Returned ss, w2)"
    using Cons.IH [of "Suc i" w1] by auto
  with s show ?case by simp
qed


lemma process_spots_distinct:
  assumes "process_spots e rl rg i items w = (Returned ss, w')"
  shows "distinct (map spot_id ss)"
proof -
  note rel = process_spots_rel [OF assms]
  then have len: "length ss = length items" by simp
  have idx: "\<exists>t. spot_id (ss ! j) = str ''gemini-'' @ show_nat t @ str ''-'' @ show_nat (i + j)"
    if "j < length ss" for j
  proof -
    from that len rel obtain w1 w2 where
      "process_spot e rl rg (items ! j) (i + j) w1 = (Returned (ss ! j), w2)"
      by auto
    then show ?thesis
      using process_spot_id by blast
  qed
  have "spot_id (ss ! j) \<noteq> spot_id (ss ! k)"
    if j: "j < length ss" and k: "k < length ss" and jk: "j \<noteq> k" for j k
  proof
    assume eq: "spot_id (ss ! j) = spot_id (ss ! k)"
    obtain t t' where "spot_id (ss ! j) = str ''gemini-'' @ show_nat t @ str ''-'' @ show_nat (i + j)"
      and "spot_id (ss ! k) = str ''gemini-'' @ show_nat t' @ str ''-'' @ show_nat (i + k)"
      using idx j k by blast
    with eq have "i + j = i + k"
      using gemini_id_inj by metis
    with jk show False by simp
  qed
  then show ?thesis
    by (simp add: distinct_conv_nth)
qed

lemma process_spots_stamps:
  assumes "process_spots e rl rg i items w = (Returned ss, w')"
  shows "\<forall>s \<in> set ss. lastUpdated s \<le> now w'"
proof -
  note rel = process_spots_rel [OF assms]
  have "lastUpdated (ss ! j) \<le> now w'" if "j < length ss" for j
  proof -
    from that rel obtain w1 w2 where
      p: "process_spot e rl rg (items ! j) (i + j) w1 = (Returned (ss ! j), w2)"
      and "now w2 \<le> now w'"
      by auto
    with process_spot_world(3) [OF p] show ?thesis by simp
  qed
  then show ?thesis
    by (auto simp: in_set_conv_nth)
qed

subsection \<open>Results computed by the service\<close>

lemma mockSpots_cache: "requestCache (snd (mockSpots e q a b w)) = requestCache w"
  by (simp add: mock_eval)

lemma mockSpots_now: "now w \<le> now (snd (mockSpots e q a b w))"
  by (simp add: mock_eval)

lemma mockSpots_stamps:
  "\<forall>s \<in> set (spots (fst (mockSpots e q a b w))). lastUpdated s \<le> now (snd (mockSpots e q a b w))"
  by (simp add: mock_eval mock_spot_defs)

lemma mockSpots_distinct: "distinct (map spot_id (spots (fst (mockSpots e q a b w))))"
  by (simp add: mock_eval mock_spot_defs str_def)

lemma process_spot_cache: "requestCache (snd (process_spot e rl rg item i w)) = requestCache w"
  by (auto simp: process_spot_unfold split: if_splits attempt.splits)

lemma process_spots_cache: "requestCache (snd (process_spots e rl rg i items w)) = requestCache w"
proof (induction items arbitrary: i w)
  case Nil
  show ?case by simp
next
  case (Cons item items)
  show ?case
    using Cons.IH [of "Suc i" "snd (process_spot e rl rg item i w)"] process_spot_cache [of e rl rg item i w]
    by (auto split: prod.splits attempt.splits)
qed

lemma process_spots_now: "now w \<le> now (snd (process_spots e rl rg i items w))"
proof (induction items arbitrary: i w)
  case Nil
  show ?case by simp
next
  case (Cons item items)
  show ?case
    using Cons.IH [of "snd (process_spot e rl rg item i w)" "Suc i"] process_spot_now [of w e rl rg item i]
    by (auto split: prod.splits attempt.splits)
qed

lemma process_spots_pair:
  "process_spots e rl rg i items w = (x, w') \<Longrightarrow> requestCache w' = requestCache w \<and> now w \<le> now w'"
  using process_spots_cache [of e rl rg i items w] process_spots_now [of w e rl rg i items] by simp

lemma upstream_pair:
  "upstream e q a b w = (x, w') \<Longrightarrow> requestCache w' = requestCache w \<and> now w \<le> now w'"
  by (auto simp: upstream_def Let_def split: gen_response.splits option.splits jsval.splits
      prod.splits attempt.splits if_splits dest: process_spots_pair)

lemma upstream_distinct:
  assumes "upstream e q a b w = (Returned r, w1)"
  shows "distinct (map spot_id (spots r))"
  using assms
  by (auto simp: upstream_def Let_def split: gen_response.splits option.splits jsval.splits
      prod.splits attempt.splits if_splits dest: process_spots_distinct)

lemma upstream_stamps:
  assumes "upstream e q a b w = (Returned r, w1)"
  shows "\<forall>s \<in> set (spots r). lastUpdated s \<le> now w1"
  using assms
  by (auto simp: upstream_def Let_def split: gen_response.splits option.splits jsval.splits
      prod.splits attempt.splits if_splits dest: process_spots_stamps)

text \<open>
  A call that finds nothing under the key returns, and stores under the key, a result of the
  mock generator or of the backend; the state it leaves differs from the one the result was
  computed in by the cache only.
\<close>

lemma fetch_miss:
  assumes "cache_read (requestCache w) (trim (toLowerCase e q)) = None"
    and "fetchFoodSpots e q a b w = (v, w')"
  shows "\<exists>r. v = Result r \<and> requestCache w' = (requestCache w)(trim (toLowerCase e q) \<mapsto> r) \<and>
           now w \<le> now w' \<and>
           ((\<exists>w0. r = fst (mockSpots e q a b w0) \<and> now w' = now (snd (mockSpots e q a b w0))) \<or>
            (\<exists>w0 w1. upstream e q a b w0 = (Returned r, w1) \<and> now w' = now w1))"
proof (cases "API_KEY e = None \<or> API_KEY e = Some []")
  case True
  let ?w1 = "console_log (str ''No API Key provided. Returning mock data.'') w"
  have "now w \<le> now (snd (mockSpots e q a b ?w1))"
    using mockSpots_now [of ?w1 e q a b] by (simp add: console_log_def)
  with True assms show ?thesis
    using mockSpots_cache [of e q a b ?w1]
    by (auto simp: fetchFoodSpots_def Let_def split_def console_log_def)
next
  case False
  show ?thesis
  proof (cases "upstream e q a b w")
    case (Pair att w1)
    have c1: "requestCache w1 = requestCache w" and n1: "now w \<le> now w1"
      using upstream_pair [OF Pair] by simp_all
    show ?thesis
    proof (cases att)
      case (Returned r)
      with assms False Pair have v: "v = Result r"
        and w': "w' = w1\<lparr>requestCache := (requestCache w1)(trim (toLowerCase e q) \<mapsto> r)\<rparr>"
        by (auto simp: fetchFoodSpots_def Let_def)
      have "\<exists>w0 w1. upstream e q a b w0 = (Returned r, w1) \<and> now w' = now w1"
        using Pair Returned w' by (intro exI [of _ w] exI [of _ w1]) simp
      with v w' c1 n1 show ?thesis by simp
    next
      case (Threw err)
      let ?w2 = "console_log (str ''Gemini API Error:'') w1"
      have "now w \<le> now (snd (mockSpots e q a b ?w2))"
        using mockSpots_now [of ?w2 e q a b] n1 by (simp add: console_log_def)
      with Threw assms False Pair c1 show ?thesis
        using mockSpots_cache [of e q a b ?w2]
        by (auto simp: fetchFoodSpots_def Let_def split_def console_log_def)
    qed
  qed
qed

text \<open>
  The service keeps the stamps in the past: when no cached spot is stamped later than the
  current time, no spot of a returned result and no cached spot is stamped later than the
  time at which the call ends. The fresh state has an empty cache.
\<close>

lemma fetchFoodSpots_stamps:
  assumes inv: "\<forall>k r. requestCache w k = Some r \<longrightarrow> (\<forall>s \<in> set (spots r). lastUpdated s \<le> now w)"
    and f: "fetchFoodSpots e q a b w = (Result r, w')"
  shows "(\<forall>s \<in> set (spots r). lastUpdated s \<le> now w') \<and>
         (\<forall>k r. requestCache w' k = Some r \<longrightarrow> (\<forall>s \<in> set (spots r). lastUpdated s \<le> now w')) \<and>
         now w \<le> now w'"
proof (cases "cache_read (requestCache w) (trim (toLowerCase e q))")
  case (Some v)
  with f have "v = Result r" "w' = w"
    by (simp_all add: fetchFoodSpots_def)
  with Some have "requestCache w (trim (toLowerCase e q)) = Some r"
    by (auto simp: cache_read_def split: option.splits if_splits)
  with inv \<open>w' = w\<close> show ?thesis by blast
next
  case None
  from fetch_miss [OF None f] have c: "requestCache w' = (requestCache w)(trim (toLowerCase e q) \<mapsto> r)"
    and n: "now w \<le> now w'"
    and r: "(\<exists>w0. r = fst (mockSpots e q a b w0) \<and> now w' = now (snd (mockSpots e q a b w0))) \<or>
            (\<exists>w0 w1. upstream e q a b w0 = (Returned r, w1) \<and> now w' = now w1)"
    by auto
  from r have st: "\<forall>s \<in> set (spots r). lastUpdated s \<le> now w'"
    using mockSpots_stamps upstream_stamps by metis
  have "\<forall>s \<in> set (spots r'). lastUpdated s \<le> now w'" if "requestCache w' k = Some r'" for k r'
  proof (cases "k = trim (toLowerCase e q)")
    case True
    with that c have "r' = r" by simp
    with st show ?thesis by simp
  next
    case False
    with that c have "requestCache w k = Some r'" by simp
    with inv n show ?thesis by fastforce
  qed
  with st n show ?thesis by blast
qed

lemma initial_world_stamps:
  "\<forall>k r. requestCache initial_world k = Some r \<longrightarrow>
     (\<forall>s \<in> set (spots r). lastUpdated s \<le> now initial_world)"
  by (simp add: initial_world_def)

text \<open>
  The result built from a payload whose spot records can all be processed, and the fallback
  when one of them cannot.
\<close>

lemma fetch_upstream:
  assumes key: "API_KEY e = Some k" "k \<noteq> []"
    and miss: "cache_read (requestCache w) (trim (toLowerCase e q)) = None"
    and resp: "generateContent e (upstream_calls w) (prompt_of q) = Resolved text"
    and parse: "JSON_parse e (case text of None \<Rightarrow> str ''{}'' | Some s \<Rightarrow> if s = [] then str ''{}'' else s)
                 = Some rawData"
    and raw: "\<not> nullish rawData"
    and arr: "or_else (getp rawData (str ''spots'')) (Arr []) = Arr items"
    and ok: "list_all (spot_ok (or_else (getp rawData (str ''regionLat'')) (Num a))
                               (or_else (getp rawData (str ''regionLng'')) (Num b))) items"
  shows "\<exists>ss w'.
       fetchFoodSpots e q a b w =
         (Result \<lparr>spots = ss,
                  center = \<lparr>lat = or_else (getp rawData (str ''regionLat'')) (Num a),
                            lng = or_else (getp rawData (str ''regionLng'')) (Num b)\<rparr>,
                  locationName = or_else (getp rawData (str ''regionName'')) (Str q)\<rparr>, w') \<and>
       length ss = length items \<and>
       (\<forall>j < length items. \<exists>w1 w2.
          process_spot e (or_else (getp rawData (str ''regionLat'')) (Num a))
            (or_else (getp rawData (str ''regionLng'')) (Num b)) (items ! j) j w1 = (Returned (ss ! j), w2) \<and>
          random_reads w1 = random_reads w + reads_before items j)"
proof -
  let ?rl = "or_else (getp rawData (str ''regionLat'')) (Num a)"
  let ?rg = "or_else (getp rawData (str ''regionLng'')) (Num b)"
  let ?w1 = "w\<lparr>upstream_calls := Suc (upstream_calls w)\<rparr>"
  obtain ss w2 where ps: "process_spots e ?rl ?rg 0 items ?w1 = (Returned ss, w2)"
    using process_spots_total [OF ok] by blast
  have rel: "length ss = length items \<and>
       (\<forall>j < length items. \<exists>w1 w2.
          process_spot e ?rl ?rg (items ! j) j w1 = (Returned (ss ! j), w2) \<and>
          random_reads w1 = random_reads w + reads_before items j)"
    using process_spots_rel [OF ps] by fastforce
  have up: "upstream e q a b w =
      (Returned \<lparr>spots = ss, center = \<lparr>lat = ?rl, lng = ?rg\<rparr>,
                 locationName = or_else (getp rawData (str ''regionName'')) (Str q)\<rparr>, w2)"
    using resp parse raw arr ps by (simp add: upstream_def Let_def)
  have "fetchFoodSpots e q a b w =
      (Result \<lparr>spots = ss, center = \<lparr>lat = ?rl, lng = ?rg\<rparr>,
                 locationName = or_else (getp rawData (str ''regionName'')) (Str q)\<rparr>,
       w2\<lparr>requestCache := (requestCache w2)(trim (toLowerCase e q) \<mapsto>
            \<lparr>spots = ss, center = \<lparr>lat = ?rl, lng = ?rg\<rparr>,
                 locationName = or_else (getp rawData (str ''regionName'')) (Str q)\<rparr>)\<rparr>)"
    using key miss up by (simp add: fetchFoodSpots_def Let_def)
  with rel show ?thesis by blast
qed



text \<open>
  C8. In every state whose cached results have pairwise distinct spot ids (the fresh state is
  one), every result that \<^verbatim>\<open>fetchFoodSpots\<close> returns, from the cache, the backend or the mock
  generator, has pairwise distinct spot ids, and the cache keeps this property.
\<close>

theorem spot_ids_distinct:
  assumes inv: "\<forall>k r. requestCache w k = Some r \<longrightarrow> distinct (map spot_id (spots r))"
    and f: "fetchFoodSpots e q a b w = (Result r, w')"
  shows "distinct (map spot_id (spots r)) \<and>
         (\<forall>k r. requestCache w' k = Some r \<longrightarrow> distinct (map spot_id (spots r)))"
proof (cases "cache_read (requestCache w) (trim (toLowerCase e q))")
  case (Some v)
  with f have "v = Result r" "w' = w"
    by (simp_all add: fetchFoodSpots_def)
  with Some have "requestCache w (trim (toLowerCase e q)) = Some r"
    by (auto simp: cache_read_def split: option.splits if_splits)
  with inv \<open>w' = w\<close> show ?thesis by blast
next
  case None
  from fetch_miss [OF None f] have c: "requestCache w' = (requestCache w)(trim (toLowerCase e q) \<mapsto> r)"
    and r: "(\<exists>w0. r = fst (mockSpots e q a b w0)) \<or> (\<exists>w0 w1. upstream e q a b w0 = (Returned r, w1))"
    by auto
  from r have d: "distinct (map spot_id (spots r))"
    using mockSpots_distinct upstream_distinct by blast
  with inv c show ?thesis by auto
qed

theorem spot_ids_distinct_witness:
  "requestCache initial_world = Map.empty \<and>
   map spot_id (result_spots (fst (fetchFoodSpots sample_env (str ''Tokyo'') 35 139 initial_world))) =
     [str ''gemini-0-0'', str ''gemini-2-1''] \<and>
   distinct (map spot_id (result_spots (fst (fetchFoodSpots sample_env (str ''Tokyo'') 35 139 initial_world))))"
proof -
  have c: "requestCache initial_world = Map.empty"
    by (simp add: initial_world_def)
  then have inv: "\<forall>k r. requestCache initial_world k = Some r \<longrightarrow> distinct (map spot_id (spots r))"
    by simp
  have ids: "map spot_id (result_spots (fst (fetchFoodSpots sample_env (str ''Tokyo'') 35 139 initial_world))) =
     [str ''gemini-0-0'', str ''gemini-2-1'']"
    by (simp add: fetch_eval)
  obtain v w' where f: "fetchFoodSpots sample_env (str ''Tokyo'') 35 139 initial_world = (v, w')"
    by (cases "fetchFoodSpots sample_env (str ''Tokyo'') 35 139 initial_world")
  with ids obtain r where v: "v = Result r"
    by (cases v) auto
  from spot_ids_distinct [OF inv f [unfolded v]] have "distinct (map spot_id (spots r))" by simp
  with c ids f v show ?thesis by simp
qed

text \<open>
  C5. The claim: a spot record without \<^verbatim>\<open>viralPosts\<close> gets a synthesized list and, more
  generally, missing optional fields are defaulted. The map has a default for
  \<^verbatim>\<open>viralPosts\<close>, \<^verbatim>\<open>influencerSummary\<close> and \<^verbatim>\<open>topInfluencers\<close> but none for the other fields
  the schema leaves optional: on the sample payload, whose records have no \<^verbatim>\<open>address\<close>, both
  spots of the result have an undefined address (\<^verbatim>\<open>SpotCard\<close> calls \<^verbatim>\<open>spot.address.split\<close>).
\<close>

theorem upstream_address_undefined:
  "getp (sample_items ! 0) (str ''address'') = Undefined \<and>
   map address (result_spots (fst (fetchFoodSpots sample_env (str ''Tokyo'') 35 139 initial_world))) =
     [Undefined, Undefined]"
  by (simp add: fetch_eval)

text \<open>
  What the map does guarantee. When the backend answers with a payload whose spot records
  can all be processed, the result is built from the payload, one spot per record. No spot
  has an undefined \<^verbatim>\<open>viralPosts\<close>: a record without it gets the one-element synthesized list. A
  missing \<^verbatim>\<open>influencerSummary\<close> or \<^verbatim>\<open>topInfluencers\<close> is defaulted as well, whereas
  \<^verbatim>\<open>address\<close>, \<^verbatim>\<open>priceRange\<close>, \<^verbatim>\<open>popularityVelocity\<close> and \<^verbatim>\<open>aiConfidence\<close> are copied as they
  are, undefined when missing.
\<close>

lemma upstream_missing_fields:
  assumes key: "API_KEY e = Some k" "k \<noteq> []"
    and miss: "cache_read (requestCache w) (trim (toLowerCase e q)) = None"
    and resp: "generateContent e (upstream_calls w) (prompt_of q) = Resolved text"
    and parse: "JSON_parse e (case text of None \<Rightarrow> str ''{}'' | Some s \<Rightarrow> if s = [] then str ''{}'' else s)
                 = Some rawData"
    and raw: "\<not> nullish rawData"
    and arr: "or_else (getp rawData (str ''spots'')) (Arr []) = Arr items"
    and ok: "list_all (spot_ok (or_else (getp rawData (str ''regionLat'')) (Num a))
                               (or_else (getp rawData (str ''regionLng'')) (Num b))) items"
  shows "\<exists>r w'.
       fetchFoodSpots e q a b w = (Result r, w') \<and>
       length (spots r) = length items \<and>
       (\<forall>j < length items.
          viralPosts (spots r ! j) \<noteq> Undefined \<and>
          (getp (items ! j) (str ''viralPosts'') = Undefined \<longrightarrow>
             viralPosts (spots r ! j) =
               Arr [Obj [(str ''handle'', Str (str ''@foodie_explorer'')),
                         (str ''caption'',
                          Str (str ''Checking out '' @ to_string e (getp (items ! j) (str ''name''))
                               @ str ''! The vibes are unmatched. #foodie'')),
                         (str ''likes'', Str (str ''12.5k'')),
                         (str ''imageUrl'',
                          Str (str ''https://picsum.photos/seed/'' @ show_nat j @ str ''/400/400'')),
                         (str ''isReel'', Bool True)]]) \<and>
          (getp (items ! j) (str ''influencerSummary'') = Undefined \<longrightarrow>
             summary (influencerData (spots r ! j)) = Str (str ''Trending on social feeds'')) \<and>
          (getp (items ! j) (str ''topInfluencers'') = Undefined \<longrightarrow>
             topMentionedBy (influencerData (spots r ! j)) = Arr []) \<and>
          address (spots r ! j) = getp (items ! j) (str ''address'') \<and>
          priceRange (spots r ! j) = getp (items ! j) (str ''priceRange'') \<and>
          popularityVelocity (spots r ! j) = getp (items ! j) (str ''popularityVelocity'') \<and>
          aiConfidence (spots r ! j) = getp (items ! j) (str ''aiConfidence''))"
proof -
  let ?rl = "or_else (getp rawData (str ''regionLat'')) (Num a)"
  let ?rg = "or_else (getp rawData (str ''regionLng'')) (Num b)"
  obtain ss w' where f: "fetchFoodSpots e q a b w =
         (Result \<lparr>spots = ss, center = \<lparr>lat = ?rl, lng = ?rg\<rparr>,
                  locationName = or_else (getp rawData (str ''regionName'')) (Str q)\<rparr>, w')"
    and len: "length ss = length items"
    and each: "\<forall>j < length items. \<exists>w1 w2.
          process_spot e ?rl ?rg (items ! j) j w1 = (Returned (ss ! j), w2) \<and>
          random_reads w1 = random_reads w + reads_before items j"
    using fetch_upstream [OF assms] by blast
  have "viralPosts (ss ! j) \<noteq> Undefined \<and>
          (getp (items ! j) (str ''viralPosts'') = Undefined \<longrightarrow>
             viralPosts (ss ! j) =
               Arr [Obj [(str ''handle'', Str (str ''@foodie_explorer'')),
                         (str ''caption'',
                          Str (str ''Checking out '' @ to_string e (getp (items ! j) (str ''name''))
                               @ str ''! The vibes are unmatched. #foodie'')),
                         (str ''likes'', Str (str ''12.5k'')),
                         (str ''imageUrl'',
                          Str (str ''https://picsum.photos/seed/'' @ show_nat j @ str ''/400/400'')),
                         (str ''isReel'', Bool True)]]) \<and>
          (getp (items ! j) (str ''influencerSummary'') = Undefined \<longrightarrow>
             summary (influencerData (ss ! j)) = Str (str ''Trending on social feeds'')) \<and>
          (getp (items ! j) (str ''topInfluencers'') = Undefined \<longrightarrow>
             topMentionedBy (influencerData (ss ! j)) = Arr []) \<and>
          address (ss ! j) = getp (items ! j) (str ''address'') \<and>
          priceRange (ss ! j) = getp (items ! j) (str ''priceRange'') \<and>
          popularityVelocity (ss ! j) = getp (items ! j) (str ''popularityVelocity'') \<and>
          aiConfidence (ss ! j) = getp (items ! j) (str ''aiConfidence'')"
    if j: "j < length items" for j
  proof -
    obtain w1 w2 where p: "process_spot e ?rl ?rg (items ! j) j w1 = (Returned (ss ! j), w2)"
      using each j by blast
    note v = process_spot_defaults(3) [OF p]
    have nu: "viralPosts (ss ! j) \<noteq> Undefined"
      using v by (auto simp: viral_posts_def ToString_def split: if_splits)
    have sy: "viralPosts (ss ! j) =
               Arr [Obj [(str ''handle'', Str (str ''@foodie_explorer'')),
                         (str ''caption'',
                          Str (str ''Checking out '' @ to_string e (getp (items ! j) (str ''name''))
                               @ str ''! The vibes are unmatched. #foodie'')),
                         (str ''likes'', Str (str ''12.5k'')),
                         (str ''imageUrl'',
                          Str (str ''https://picsum.photos/seed/'' @ show_nat j @ str ''/400/400'')),
                         (str ''isReel'', Bool True)]]"
      if "getp (items ! j) (str ''viralPosts'') = Undefined"
      using v that by (auto simp: viral_posts_def ToString_def split: if_splits)
    from nu sy show ?thesis
      by (simp add: process_spot_defaults(1,2) [OF p] process_spot_copied [OF p] or_else_def)
  qed
  with f len show ?thesis by auto
qed



end
